theory Spec2Isabelle
  imports Main "HOL-Library.Word"
begin

section \<open>The host tensor library, as far as the dispatchers use it\<close>

text \<open>
  The dispatchers only do shape algebra on their operands, so a tensor is its list of
  extents and its element type. Extents of an existing tensor are never negative.
  Everything that throws in the source is a value \<open>Inl e\<close> here.
\<close>

type_synonym uint = "32 word"

datatype scalar_type = Float | Half | Double

record tensor =
  sizes :: "nat list"
  scalar_type :: scalar_type

datatype error =
    Std_out_of_range        \<comment> \<open>\<open>std::string::at\<close> past the end of the string\<close>
  | Dim_out_of_range        \<comment> \<open>a dimension index outside the rank (\<open>size\<close>, \<open>flatten\<close>)\<close>
  | Invalid_flatten         \<comment> \<open>\<open>flatten\<close> with the start after the end\<close>
  | Invalid_slice           \<comment> \<open>\<open>ArrayRef::slice\<close> past the end of the array\<close>
  | Negative_size           \<comment> \<open>\<open>new_empty\<close> with a negative extent\<close>
  | Shape_mismatch          \<comment> \<open>\<open>reshape\<close> to a shape with another number of elements\<close>
  | Wrong_scalar_type       \<comment> \<open>\<open>data_ptr<T>\<close> on a tensor of another element type\<close>
  | Undefined_behaviour     \<comment> \<open>the C++ program has no defined meaning from here on\<close>

definition and_then :: "error + 'a \<Rightarrow> ('a \<Rightarrow> error + 'b) \<Rightarrow> error + 'b" where
  "and_then r f = (case r of Inl e \<Rightarrow> Inl e | Inr v \<Rightarrow> f v)"

definition dim :: "tensor \<Rightarrow> nat" where
  "dim t = length (sizes t)"

definition numel :: "nat list \<Rightarrow> nat" where
  "numel shp = prod_list shp"

text \<open>
  \<open>maybe_wrap_dim\<close>: a dimension index \<open>d\<close> of a tensor of rank \<open>n\<close> is valid in
  \<open>[-n, n-1]\<close>, negative ones counting from the end. A tensor of rank 0 is treated as
  one of rank 1 when \<open>wrap_scalar\<close> is set, and has no valid index otherwise.
\<close>

definition maybe_wrap_dim :: "int \<Rightarrow> nat \<Rightarrow> bool \<Rightarrow> error + nat" where
  "maybe_wrap_dim d n wrap_scalar =
     (let r = (if n = 0 \<and> wrap_scalar then 1 else int n)
      in if - r \<le> d \<and> d < r then Inr (nat (if d < 0 then d + r else d))
         else Inl Dim_out_of_range)"

definition size_t :: "tensor \<Rightarrow> int \<Rightarrow> error + nat" where
  "size_t t d = and_then (maybe_wrap_dim d (dim t) False) (\<lambda>i. Inr (sizes t ! i))"

definition flatten :: "tensor \<Rightarrow> int \<Rightarrow> int \<Rightarrow> error + tensor" where
  "flatten t start_dim end_dim =
     and_then (maybe_wrap_dim start_dim (dim t) True) (\<lambda>s.
     and_then (maybe_wrap_dim end_dim (dim t) True) (\<lambda>e.
       if e < s then Inl Invalid_flatten
       else if dim t = 0 then Inr (t\<lparr>sizes := [1]\<rparr>)
       else if s = e then Inr t
       else Inr (t\<lparr>sizes := take s (sizes t)
                               @ [numel (take (e - s + 1) (drop s (sizes t)))]
                               @ drop (e + 1) (sizes t)\<rparr>)))"

text \<open>\<open>sizes().slice(0, m)\<close>: the first \<open>m\<close> extents; \<open>m\<close> is converted to an unsigned
  length, so a negative \<open>m\<close> is past the end as well.\<close>

definition slice0 :: "nat list \<Rightarrow> int \<Rightarrow> error + nat list" where
  "slice0 xs m = (if 0 \<le> m \<and> m \<le> int (length xs) then Inr (take (nat m) xs)
                  else Inl Invalid_slice)"

definition new_empty :: "tensor \<Rightarrow> int list \<Rightarrow> error + tensor" where
  "new_empty t shp = (if list_ex (\<lambda>d. d < 0) shp then Inl Negative_size
                      else Inr (t\<lparr>sizes := map nat shp\<rparr>))"

definition reshape :: "tensor \<Rightarrow> int list \<Rightarrow> error + tensor" where
  "reshape t shp = (if list_all (\<lambda>d. 0 \<le> d) shp \<and> numel (map nat shp) = numel (sizes t)
                    then Inr (t\<lparr>sizes := map nat shp\<rparr>)
                    else Inl Shape_mismatch)"

definition data_ptr_float :: "tensor \<Rightarrow> error + unit" where
  "data_ptr_float t = (if scalar_type t = Float then Inr () else Inl Wrong_scalar_type)"

definition string_at :: "string \<Rightarrow> nat \<Rightarrow> error + char" where
  "string_at s i = (if i < length s then Inr (s ! i) else Inl Std_out_of_range)"


section \<open>\<open>sparse_matmul\<close>: the dispatcher of \<open>native/sparse_matmul_gpu.cu\<close>\<close>

text \<open>A layout is the pair of the block list (two 16-bit entries per block) and the table.\<close>

record layout_tensors =
  block_list :: "16 word list"
  table :: "int list"

record dim3 =
  dim_x :: uint
  dim_y :: uint
  dim_z :: uint

text \<open>The source file defines one kernel, and every branch of the selection names it.\<close>

datatype kernel = Sparse_matmul_sdd_32x32x8_kernel

record launch =
  l_kernel :: kernel
  l_blocks :: dim3
  l_threads :: nat
  l_layout :: layout_tensors
  l_num_blocks :: uint
  l_size_m :: uint
  l_size_n :: uint
  l_size_k :: uint
  l_trans_a :: bool
  l_trans_b :: bool

text \<open>What a call does besides returning: the buffers it allocates and the kernels it
  launches, in order.\<close>

datatype event = Alloc "nat list" | Launch launch

text \<open>Modelled from the spec: \<open>tile<float, 32, 8>::THREADS\<close> of \<open>tiling_utils.cuh\<close>, which
  is not among the sources; the spec gives 32 lanes times 8 warps for single precision.\<close>

definition THREADS :: nat where
  "THREADS = 256"

definition select_layout ::
  "string \<Rightarrow> layout_tensors \<Rightarrow> layout_tensors \<Rightarrow> bool \<Rightarrow> bool \<Rightarrow> layout_tensors" where
  "select_layout mode row_layout col_layout trans_a trans_b =
     (if mode = ''sdd'' \<or> (mode = ''dsd'' \<and> \<not> trans_a) \<or> (mode = ''dds'' \<and> trans_b)
      then row_layout else col_layout)"

definition layout_num_blocks :: "layout_tensors \<Rightarrow> uint" where
  "layout_num_blocks layout = word_of_nat (length (block_list layout) div 2)"

definition layout_sparse_width :: "layout_tensors \<Rightarrow> uint" where
  "layout_sparse_width layout = word_of_int ((int (length (table layout)) - 1) * 32)"

text \<open>Lines 115 to 119: the three extents, each read converted to \<open>uint\<close>.\<close>

definition derive_sizes ::
  "tensor \<Rightarrow> tensor \<Rightarrow> string \<Rightarrow> uint \<Rightarrow> bool \<Rightarrow> bool \<Rightarrow> error + (uint \<times> uint \<times> uint)" where
  "derive_sizes a b mode sparse_width trans_a trans_b =
     and_then (string_at mode 1) (\<lambda>m1.
     and_then (if m1 = CHR ''d''
               then and_then (size_t a (if trans_a then - 1 else - 2)) (\<lambda>v. Inr (word_of_nat v))
               else Inr sparse_width) (\<lambda>size_m.
     and_then (string_at mode 2) (\<lambda>m2.
     and_then (if m2 = CHR ''d''
               then and_then (size_t b (if trans_b then - 2 else - 1)) (\<lambda>v. Inr (word_of_nat v))
               else Inr sparse_width) (\<lambda>size_n.
     and_then (string_at mode 2) (\<lambda>m2'.
     and_then (if m2' = CHR ''d''
               then and_then (size_t b (if trans_b then - 1 else - 2)) (\<lambda>v. Inr (word_of_nat v))
               else and_then (size_t a (if trans_a then - 2 else - 1)) (\<lambda>v. Inr (word_of_nat v)))
       (\<lambda>size_k. Inr (size_m, size_n, size_k)))))))"

text \<open>Lines 121 to 126: the shape of the result, with the batch dimensions of the operand
  that position 1 of the mode selects.\<close>

definition construct_shape ::
  "tensor \<Rightarrow> tensor \<Rightarrow> string \<Rightarrow> uint \<Rightarrow> uint \<Rightarrow> uint \<Rightarrow> error + int list" where
  "construct_shape a b mode num_blocks size_m size_n =
     and_then (string_at mode 1) (\<lambda>m1.
       let dense = (if m1 = CHR ''d'' then a else b) in
     and_then (slice0 (sizes dense) (int (dim dense) - 2)) (\<lambda>shape.
     and_then (string_at mode 0) (\<lambda>m0.
       if m0 = CHR ''d'' then Inr (map int shape @ [uint size_m, uint size_n])
       else Inr (map int shape @ [uint num_blocks, 32, 32]))))"

text \<open>Lines 128 to 131: both operands with their batch dimensions merged, and the number
  of batches, read from the first operand.\<close>

definition merge_batches ::
  "tensor \<Rightarrow> tensor \<Rightarrow> string \<Rightarrow> error + (tensor \<times> tensor \<times> uint)" where
  "merge_batches a b mode =
     and_then (string_at mode 1) (\<lambda>m1.
     and_then (flatten a 0 (if m1 = CHR ''d'' then - 3 else - 4)) (\<lambda>a'.
     and_then (string_at mode 2) (\<lambda>m2.
     and_then (flatten b 0 (if m2 = CHR ''d'' then - 3 else - 4)) (\<lambda>b'.
     and_then (size_t a' 0) (\<lambda>nb.
       Inr (a', b', word_of_nat nb))))))"

text \<open>Lines 133 to 136: the shape of the buffer that is allocated.\<close>

definition buffer_shape :: "string \<Rightarrow> uint \<Rightarrow> uint \<Rightarrow> uint \<Rightarrow> uint \<Rightarrow> error + int list" where
  "buffer_shape mode num_batches num_blocks size_m size_n =
     and_then (string_at mode 0) (\<lambda>m0.
       if m0 = CHR ''d'' then Inr [uint num_batches, uint size_m, uint size_n]
       else Inr [uint num_batches, uint num_blocks, 32, 32])"

text \<open>Lines 139 to 142: the launch grid, in \<open>uint\<close> arithmetic.\<close>

definition launch_grid :: "string \<Rightarrow> uint \<Rightarrow> uint \<Rightarrow> uint \<Rightarrow> uint \<Rightarrow> dim3" where
  "launch_grid mode num_batches num_blocks size_m size_n =
     (if mode = ''sdd'' then \<lparr>dim_x = num_blocks, dim_y = num_batches, dim_z = 1\<rparr>
      else \<lparr>dim_x = num_batches,
            dim_y = (size_m + 32 - 1) div 32,
            dim_z = (size_n + 32 - 1) div 32\<rparr>)"

text \<open>Lines 145 to 147.\<close>

definition select_kernel :: "string \<Rightarrow> kernel" where
  "select_kernel mode =
     (if mode = ''sdd'' then Sparse_matmul_sdd_32x32x8_kernel
      else if mode = ''dsd'' then Sparse_matmul_sdd_32x32x8_kernel
      else Sparse_matmul_sdd_32x32x8_kernel)"

text \<open>Lines 144 to 153: \<open>DISPATCH_KERNEL_WITH_TYPE\<close> launches for single precision only;
  the half-precision branch is commented out and any other element type has no branch.\<close>

definition dispatch_kernel ::
  "tensor \<Rightarrow> tensor \<Rightarrow> tensor \<Rightarrow> string \<Rightarrow> dim3 \<Rightarrow> layout_tensors \<Rightarrow> uint \<Rightarrow> uint \<Rightarrow> uint \<Rightarrow> uint
   \<Rightarrow> bool \<Rightarrow> bool \<Rightarrow> error + event list" where
  "dispatch_kernel a b c mode blocks layout num_blocks size_m size_n size_k trans_a trans_b =
     (if scalar_type a = Float then
        and_then (data_ptr_float a) (\<lambda>_.
        and_then (data_ptr_float b) (\<lambda>_.
        and_then (data_ptr_float c) (\<lambda>_.
          Inr [Launch \<lparr>l_kernel = select_kernel mode, l_blocks = blocks, l_threads = THREADS,
                       l_layout = layout, l_num_blocks = num_blocks,
                       l_size_m = size_m, l_size_n = size_n, l_size_k = size_k,
                       l_trans_a = trans_a, l_trans_b = trans_b\<rparr>])))
      else Inr [])"

text \<open>The whole call: the events so far and either the error thrown or the tensor
  returned.\<close>

definition sparse_matmul ::
  "tensor \<Rightarrow> tensor \<Rightarrow> string \<Rightarrow> layout_tensors \<Rightarrow> layout_tensors \<Rightarrow> bool \<Rightarrow> bool
   \<Rightarrow> event list \<times> (error + tensor)" where
  "sparse_matmul a b mode row_layout col_layout trans_a trans_b =
     (let layout = select_layout mode row_layout col_layout trans_a trans_b;
          num_blocks = layout_num_blocks layout;
          sparse_width = layout_sparse_width layout
      in case and_then (derive_sizes a b mode sparse_width trans_a trans_b) (\<lambda>(size_m, size_n, size_k).
              and_then (construct_shape a b mode num_blocks size_m size_n) (\<lambda>shape.
              and_then (merge_batches a b mode) (\<lambda>(a', b', num_batches).
              and_then (buffer_shape mode num_batches num_blocks size_m size_n) (\<lambda>c_shape.
              and_then (new_empty a' c_shape) (\<lambda>c.
                Inr (size_m, size_n, size_k, shape, a', b', num_batches, c))))))
         of Inl e \<Rightarrow> ([], Inl e)
          | Inr (size_m, size_n, size_k, shape, a', b', num_batches, c) \<Rightarrow>
              (let blocks = launch_grid mode num_batches num_blocks size_m size_n
               in case dispatch_kernel a' b' c mode blocks layout num_blocks
                         size_m size_n size_k trans_a trans_b
                  of Inl e \<Rightarrow> ([Alloc (sizes c)], Inl e)
                   | Inr launched \<Rightarrow> (Alloc (sizes c) # launched, reshape c shape)))"


section \<open>\<open>batched_sparse_matmul_op\<close>: the second dispatcher\<close>

text \<open>Modelled from the spec: \<open>TILE_32x32_WIDTH\<close> of \<open>sparse_ops.h\<close>, which is not among
  the sources; the spec fixes the tile width at 32.\<close>

definition TILE_32x32_WIDTH :: int where
  "TILE_32x32_WIDTH = 32"

text \<open>The three native operations are declared in a header and defined elsewhere; a call
  is recorded with its scalar arguments (blocks, batches, m, n, k) and the two flags.\<close>

datatype native_op =
    Batched_sparse_matmul_op_32x32_sdd
  | Batched_sparse_matmul_op_32x32_dsd
  | Batched_sparse_matmul_op_32x32_dds

datatype op_event = Op_alloc "nat list" | Op_call native_op "int list" bool bool

text \<open>\<open>std::vector::pop_back\<close> has no defined behaviour on an empty vector.\<close>

definition pop_back :: "'a list \<Rightarrow> error + 'a list" where
  "pop_back xs = (if xs = [] then Inl Undefined_behaviour else Inr (butlast xs))"

text \<open>The end of each branch: allocate the output, pass the three data pointers and the
  scalars to the native operation, and reshape what it filled.\<close>

definition allocate_and_call ::
  "native_op \<Rightarrow> tensor \<Rightarrow> tensor \<Rightarrow> int list \<Rightarrow> int list \<Rightarrow> bool \<Rightarrow> bool \<Rightarrow> int list
   \<Rightarrow> op_event list \<times> (error + tensor)" where
  "allocate_and_call op a b c_shape scalars trans_a trans_b output_shape =
     (case new_empty a c_shape of Inl e \<Rightarrow> ([], Inl e)
      | Inr c \<Rightarrow>
         (case and_then (data_ptr_float a) (\<lambda>_.
               and_then (data_ptr_float b) (\<lambda>_. data_ptr_float c))
          of Inl e \<Rightarrow> ([Op_alloc (sizes c)], Inl e)
           | Inr _ \<Rightarrow> ([Op_alloc (sizes c), Op_call op scalars trans_a trans_b],
                       reshape c output_shape)))"

definition op_sdd ::
  "tensor \<Rightarrow> tensor \<Rightarrow> 16 word list \<Rightarrow> bool \<Rightarrow> bool \<Rightarrow> op_event list \<times> (error + tensor)" where
  "op_sdd a b row_blocks trans_a trans_b =
     (case and_then (pop_back (map int (sizes a))) (\<lambda>s1.
           and_then (pop_back s1) (\<lambda>s2.
             let output_shape = s2 @ [int (length row_blocks) div 2,
                                      TILE_32x32_WIDTH, TILE_32x32_WIDTH] in
           and_then (flatten a 0 (- 3)) (\<lambda>a'.
           and_then (flatten b 0 (- 3)) (\<lambda>b'.
           and_then (size_t a' 0) (\<lambda>total_batches.
             let total_blocks = int (length row_blocks) div 2 in
           and_then (size_t a' (if trans_a then - 1 else - 2)) (\<lambda>total_m.
           and_then (size_t b' (if trans_b then - 2 else - 1)) (\<lambda>total_n.
           and_then (size_t b' (if trans_b then - 1 else - 2)) (\<lambda>total_k.
             Inr (a', b',
                  [int total_batches, total_blocks, TILE_32x32_WIDTH, TILE_32x32_WIDTH],
                  [total_blocks, int total_batches, int total_m, int total_n, int total_k],
                  output_shape)))))))))
      of Inl e \<Rightarrow> ([], Inl e)
       | Inr (a', b', c_shape, scalars, output_shape) \<Rightarrow>
           allocate_and_call Batched_sparse_matmul_op_32x32_sdd a' b' c_shape scalars
             trans_a trans_b output_shape)"

definition op_dsd ::
  "tensor \<Rightarrow> tensor \<Rightarrow> 16 word list \<Rightarrow> int list \<Rightarrow> 16 word list \<Rightarrow> int list \<Rightarrow> bool \<Rightarrow> bool
   \<Rightarrow> op_event list \<times> (error + tensor)" where
  "op_dsd a b row_blocks row_table col_blocks col_table trans_a trans_b =
     (let sparse_blocks = (if trans_a then col_blocks else row_blocks);
          sparse_table = (if trans_a then col_table else row_table);
          total_m = (int (length sparse_table) - 1) * TILE_32x32_WIDTH
      in case and_then (size_t b (if trans_b then - 2 else - 1)) (\<lambda>total_n.
              and_then (size_t b (if trans_b then - 1 else - 2)) (\<lambda>total_k.
              and_then (pop_back (map int (sizes b))) (\<lambda>s1.
              and_then (pop_back s1) (\<lambda>s2.
                let output_shape = s2 @ [total_m, int total_n] in
              and_then (flatten a 0 (- 4)) (\<lambda>a'.
              and_then (flatten b 0 (- 3)) (\<lambda>b'.
              and_then (size_t a' 0) (\<lambda>total_batches.
                let total_blocks = int (length sparse_blocks) div 2 in
                Inr (a', b',
                     [int total_batches, total_m, int total_n],
                     [total_blocks, int total_batches, total_m, int total_n, int total_k],
                     output_shape))))))))
         of Inl e \<Rightarrow> ([], Inl e)
          | Inr (a', b', c_shape, scalars, output_shape) \<Rightarrow>
              allocate_and_call Batched_sparse_matmul_op_32x32_dsd a' b' c_shape scalars
                trans_a trans_b output_shape)"

definition op_dds ::
  "tensor \<Rightarrow> tensor \<Rightarrow> 16 word list \<Rightarrow> int list \<Rightarrow> 16 word list \<Rightarrow> int list \<Rightarrow> bool \<Rightarrow> bool
   \<Rightarrow> op_event list \<times> (error + tensor)" where
  "op_dds a b row_blocks row_table col_blocks col_table trans_a trans_b =
     (let sparse_blocks = (if trans_b then row_blocks else col_blocks);
          sparse_table = (if trans_b then row_table else col_table)
      in case and_then (size_t a (if trans_a then - 1 else - 2)) (\<lambda>total_m.
                let total_n = (int (length sparse_table) - 1) * TILE_32x32_WIDTH in
              and_then (size_t a (if trans_a then - 2 else - 1)) (\<lambda>total_k.
              and_then (pop_back (map int (sizes a))) (\<lambda>s1.
              and_then (pop_back s1) (\<lambda>s2.
                let output_shape = s2 @ [int total_m, total_n] in
              and_then (flatten a 0 (- 3)) (\<lambda>a'.
              and_then (flatten b 0 (- 4)) (\<lambda>b'.
              and_then (size_t a' 0) (\<lambda>total_batches.
                let total_blocks = int (length sparse_blocks) div 2 in
                Inr (a', b',
                     [int total_batches, int total_m, total_n],
                     [total_blocks, int total_batches, int total_m, total_n, int total_k],
                     output_shape))))))))
         of Inl e \<Rightarrow> ([], Inl e)
          | Inr (a', b', c_shape, scalars, output_shape) \<Rightarrow>
              allocate_and_call Batched_sparse_matmul_op_32x32_dds a' b' c_shape scalars
                trans_a trans_b output_shape)"

text \<open>The chain of comparisons has no final \<open>else\<close>: with any other mode, control reaches
  the end of a function that must return a tensor.\<close>

definition batched_sparse_matmul_op ::
  "tensor \<Rightarrow> tensor \<Rightarrow> string \<Rightarrow> 16 word list \<Rightarrow> int list \<Rightarrow> 16 word list \<Rightarrow> int list
   \<Rightarrow> bool \<Rightarrow> bool \<Rightarrow> op_event list \<times> (error + tensor)" where
  "batched_sparse_matmul_op a b mode row_blocks row_table col_blocks col_table trans_a trans_b =
     (if mode = ''sdd'' then op_sdd a b row_blocks trans_a trans_b
      else if mode = ''dsd'' then
        op_dsd a b row_blocks row_table col_blocks col_table trans_a trans_b
      else if mode = ''dds'' then
        op_dds a b row_blocks row_table col_blocks col_table trans_a trans_b
      else ([], Inl Undefined_behaviour))"


section \<open>\<open>sparse_matmul_sdd_32x32x8_kernel\<close>: the kernel\<close>

text \<open>
  A device buffer is its number of elements and their values; a read outside it has no
  defined behaviour and is \<open>None\<close>. A pointer into a buffer, \<open>matrix_a + offset_a\<close>, is
  the view of the buffer from the offset on. The element type is any type with a zero, an
  addition and a multiplication, of which nothing is assumed: the single-precision
  operations are one instance, and on whole numbers of small magnitude they agree with
  those of the integers.
\<close>

record 'a buffer =
  extent :: nat
  cell :: "nat \<Rightarrow> 'a"

type_synonym 'a pointer = "nat \<Rightarrow> 'a option"

definition read :: "'a buffer \<Rightarrow> nat \<Rightarrow> 'a option" where
  "read buf i = (if i < extent buf then Some (cell buf i) else None)"

definition advance :: "'a buffer \<Rightarrow> uint \<Rightarrow> 'a pointer" where
  "advance buf offset = (\<lambda>i. read buf (unat offset + i))"

text \<open>Modelled from the spec: \<open>sparse_layout\<close> of \<open>layout_utils.cuh\<close>, which is not among
  the sources. \<open>get(i)\<close> returns the row and the column of the \<open>i\<close>-th block of the list, and
  \<open>i\<close> as its linear position.\<close>

record block =
  block_row :: uint
  block_col :: uint
  block_idx :: uint

definition layout_get :: "layout_tensors \<Rightarrow> uint \<Rightarrow> block option" where
  "layout_get layout i =
     (if 2 * unat i + 1 < length (block_list layout)
      then Some \<lparr>block_row = scast (block_list layout ! (2 * unat i)),
                 block_col = scast (block_list layout ! (2 * unat i + 1)),
                 block_idx = i\<rparr>
      else None)"

text \<open>Modelled from the spec: \<open>tile<float, 32, 8>::loader\<close> and \<open>::storage\<close> of
  \<open>tiling_utils.cuh\<close>, which is not among the sources. A slab has 32 rows of 8 values along
  the reduction; \<open>prefetch(source_pointer, row_origin, col_origin, leading_dimension)\<close>
  stages the slab found at that origin, row-major with that leading dimension, and a
  loader built transposed reads it as 8 rows of 32. The work-group loads the whole slab,
  so one address outside the buffer leaves the kernel without defined behaviour.
  \<open>commit\<close> publishes what is staged into one of the two pages of the storage, and
  \<open>get(page, row, i)\<close> reads it back.\<close>

type_synonym 'a slab = "nat \<Rightarrow> nat \<Rightarrow> 'a"

record 'a loader =
  ld_transposed :: bool
  ld_staged :: "'a slab option"

type_synonym 'a storage = "nat \<Rightarrow> 'a slab option"

definition loader :: "bool \<Rightarrow> 'a loader" where
  "loader transposed = \<lparr>ld_transposed = transposed, ld_staged = None\<rparr>"

definition slab_address :: "bool \<Rightarrow> nat \<Rightarrow> nat \<Rightarrow> nat \<Rightarrow> nat \<Rightarrow> nat \<Rightarrow> nat" where
  "slab_address transposed row_origin col_origin leading_dimension r i =
     (if transposed then (row_origin + i) * leading_dimension + col_origin + r
      else (row_origin + r) * leading_dimension + col_origin + i)"

definition prefetch :: "'a loader \<Rightarrow> 'a pointer \<Rightarrow> uint \<times> uint \<times> uint \<Rightarrow> 'a loader option" where
  "prefetch ld src origin =
     (case origin of (row_origin, col_origin, leading_dimension) \<Rightarrow>
        let address = slab_address (ld_transposed ld) (unat row_origin) (unat col_origin)
                        (unat leading_dimension)
        in if list_all (\<lambda>r. list_all (\<lambda>i. src (address r i) \<noteq> None) [0..<8]) [0..<32]
           then Some (ld\<lparr>ld_staged := Some (\<lambda>r i. the (src (address r i)))\<rparr>)
           else None)"

definition commit :: "'a loader \<Rightarrow> 'a storage \<Rightarrow> nat \<Rightarrow> 'a storage" where
  "commit ld st page = st(page := ld_staged ld)"

definition storage_get :: "'a storage \<Rightarrow> nat \<Rightarrow> nat \<Rightarrow> nat \<Rightarrow> 'a option" where
  "storage_get st page r i = map_option (\<lambda>s. s r i) (st page)"

text \<open>The arguments of the four \<open>prefetch\<close> calls after the pointer, as lines 64, 65, 76
  and 77 list them.\<close>

definition first_prefetch_a :: "launch \<Rightarrow> uint \<Rightarrow> uint \<times> uint \<times> uint" where
  "first_prefetch_a cfg m =
     (if l_trans_a cfg then 0 else m,
      if l_trans_a cfg then m else 0,
      if l_trans_a cfg then l_size_m cfg else l_size_k cfg)"

definition first_prefetch_b :: "launch \<Rightarrow> uint \<Rightarrow> uint \<times> uint \<times> uint" where
  "first_prefetch_b cfg n =
     (if l_trans_b cfg then n else 0,
      if l_trans_b cfg then 0 else n,
      if l_trans_b cfg then l_size_k cfg else l_size_n cfg)"

definition next_prefetch_a :: "launch \<Rightarrow> uint \<Rightarrow> uint \<Rightarrow> uint \<times> uint \<times> uint" where
  "next_prefetch_a cfg m k =
     (if l_trans_a cfg then l_size_m cfg else l_size_k cfg,
      if l_trans_a cfg then k + 8 else m,
      if l_trans_a cfg then m else k + 8)"

definition next_prefetch_b :: "launch \<Rightarrow> uint \<Rightarrow> uint \<Rightarrow> uint \<times> uint \<times> uint" where
  "next_prefetch_b cfg n k =
     (if l_trans_b cfg then l_size_k cfg else l_size_n cfg,
      if l_trans_b cfg then n else k + 8,
      if l_trans_b cfg then k + 8 else n)"

text \<open>Lines 83 to 94, for one position \<open>i\<close> of the slab: four values of B, one of A, four
  additions of a product to the accumulators.\<close>

definition accumulate ::
  "'a storage \<Rightarrow> 'a storage \<Rightarrow> nat \<Rightarrow> uint \<Rightarrow> uint \<Rightarrow> 'a::{plus,times} list \<Rightarrow> nat
   \<Rightarrow> 'a list option" where
  "accumulate storage_a storage_b page lane_idx warp_idx accumulator i =
     (case those (map (\<lambda>j. storage_get storage_b page (unat (warp_idx * 4 + word_of_nat j)) i)
                    [0..<4]) of
        None \<Rightarrow> None
      | Some local_b \<Rightarrow>
         (case storage_get storage_a page (unat lane_idx) i of
            None \<Rightarrow> None
          | Some local_a \<Rightarrow>
              Some (map (\<lambda>j. accumulator ! j + local_a * local_b ! j) [0..<4])))"

fun accumulate_all :: "('a list \<Rightarrow> nat \<Rightarrow> 'a list option) \<Rightarrow> 'a list \<Rightarrow> nat list \<Rightarrow> 'a list option" where
  "accumulate_all step accumulator [] = Some accumulator"
| "accumulate_all step accumulator (i # rest) =
     (case step accumulator i of
        None \<Rightarrow> None
      | Some accumulator' \<Rightarrow> accumulate_all step accumulator' rest)"

record 'a registers =
  loader_a :: "'a loader"
  loader_b :: "'a loader"
  storage_a :: "'a storage"
  storage_b :: "'a storage"
  accumulator :: "'a list"

text \<open>Lines 68 to 95: the loop over the reduction, with \<open>k\<close> a \<open>uint\<close> that wraps. It
  returns \<open>None\<close> when a read has no defined behaviour or the loop does not end.\<close>

partial_function (option) k_loop ::
  "launch \<Rightarrow> 'a pointer \<Rightarrow> 'a pointer \<Rightarrow> uint \<Rightarrow> uint \<Rightarrow> uint \<Rightarrow> uint
   \<Rightarrow> 'a::{plus,times} registers \<Rightarrow> uint \<Rightarrow> 'a registers option" where
  "k_loop cfg src_a src_b m n lane_idx warp_idx regs k =
     (if k < l_size_k cfg then
        let page = unat (k div 8 mod 2);
            sa = commit (loader_a regs) (storage_a regs) page;
            sb = commit (loader_b regs) (storage_b regs) page
        in case (if k + 8 < l_size_k cfg
                 then (case prefetch (loader_a regs) src_a (next_prefetch_a cfg m k) of
                         None \<Rightarrow> None
                       | Some la \<Rightarrow>
                          (case prefetch (loader_b regs) src_b (next_prefetch_b cfg n k) of
                             None \<Rightarrow> None
                           | Some lb \<Rightarrow> Some (la, lb)))
                 else Some (loader_a regs, loader_b regs)) of
             None \<Rightarrow> None
           | Some (la, lb) \<Rightarrow>
              (case accumulate_all (accumulate sa sb page lane_idx warp_idx)
                      (accumulator regs) [0..<8] of
                 None \<Rightarrow> None
               | Some acc \<Rightarrow>
                   k_loop cfg src_a src_b m n lane_idx warp_idx
                     \<lparr>loader_a = la, loader_b = lb, storage_a = sa, storage_b = sb,
                      accumulator = acc\<rparr> (k + 8))
      else Some regs)"

text \<open>Line 55 and line 99: where the thread stores its \<open>i\<close>-th accumulator.\<close>

definition offset_c :: "uint \<Rightarrow> uint \<Rightarrow> block \<Rightarrow> uint" where
  "offset_c num_blocks block_idx_y blk = (block_idx_y * num_blocks + block_idx blk) * 32 * 32"

definition store_index :: "uint \<Rightarrow> uint \<Rightarrow> uint \<Rightarrow> nat \<Rightarrow> nat" where
  "store_index off_c lane_idx warp_idx i =
     unat (off_c + lane_idx * 32 + (warp_idx * 4 + word_of_nat i))"

text \<open>One thread of one work-group: the index and the value of each of its four stores
  into \<open>matrix_c\<close>. The kernel never reads \<open>blockIdx.z\<close>.\<close>

definition sparse_matmul_sdd_32x32x8_kernel ::
  "'a::{zero,plus,times} buffer \<Rightarrow> 'a buffer \<Rightarrow> launch \<Rightarrow> dim3 \<Rightarrow> uint \<Rightarrow> (nat \<times> 'a) list option" where
  "sparse_matmul_sdd_32x32x8_kernel matrix_a matrix_b cfg block_idx_xyz thread_idx_x =
     (let lane_idx = thread_idx_x mod 32;
          warp_idx = thread_idx_x div 32
      in case layout_get (l_layout cfg) (dim_x block_idx_xyz) of
           None \<Rightarrow> None
         | Some blk \<Rightarrow>
            let m = block_row blk * 32;
                n = block_col blk * 32;
                offset_a = dim_y block_idx_xyz * l_size_m cfg * l_size_k cfg;
                offset_b = dim_y block_idx_xyz * l_size_k cfg * l_size_n cfg;
                off_c = offset_c (l_num_blocks cfg) (dim_y block_idx_xyz) blk;
                src_a = advance matrix_a offset_a;
                src_b = advance matrix_b offset_b
            in case prefetch (loader (l_trans_a cfg)) src_a (first_prefetch_a cfg m) of
                 None \<Rightarrow> None
               | Some la \<Rightarrow>
                  (case prefetch (loader (\<not> l_trans_b cfg)) src_b (first_prefetch_b cfg n) of
                     None \<Rightarrow> None
                   | Some lb \<Rightarrow>
                      (case k_loop cfg src_a src_b m n lane_idx warp_idx
                              \<lparr>loader_a = la, loader_b = lb,
                               storage_a = (\<lambda>_. None), storage_b = (\<lambda>_. None),
                               accumulator = replicate 4 0\<rparr> 0 of
                         None \<Rightarrow> None
                       | Some regs \<Rightarrow>
                           Some (map (\<lambda>i. (store_index off_c lane_idx warp_idx i,
                                           accumulator regs ! i)) [0..<4]))))"

text \<open>The standard product an SDD block is measured against: for the block at tile row
  \<open>r\<close> and tile column \<open>c\<close>, the element at \<open>row\<close> and \<open>column\<close> is the sum over \<open>k\<close>, taken
  in ascending order into a running total, of A at row \<open>32 r + row\<close> times B at column
  \<open>32 c + column\<close>, neither operand transposed.\<close>

definition standard_product ::
  "'a::{zero,plus,times} buffer \<Rightarrow> 'a buffer \<Rightarrow> nat \<Rightarrow> nat \<Rightarrow> nat \<Rightarrow> nat \<Rightarrow> nat \<Rightarrow> nat \<Rightarrow> 'a" where
  "standard_product matrix_a matrix_b size_k size_n r c row column =
     foldl (\<lambda>total k. total + cell matrix_a ((32 * r + row) * size_k + k)
                              * cell matrix_b (k * size_n + 32 * c + column))
       0 [0..<size_k]"


section \<open>What the claims are measured against\<close>

text \<open>The batch dimensions of an operand: all extents but the trailing \<open>j\<close>.\<close>

definition leading :: "tensor \<Rightarrow> nat \<Rightarrow> nat list" where
  "leading t j = take (dim t - j) (sizes t)"

text \<open>The extents of a dense operand as the mode table of the spec reads them: the rows
  of A (its columns under \<open>trans_a\<close>), the columns of B (its rows under \<open>trans_b\<close>).\<close>

definition rows_of :: "tensor \<Rightarrow> bool \<Rightarrow> nat" where
  "rows_of t transposed = sizes t ! (dim t - (if transposed then 1 else 2))"

definition cols_of :: "tensor \<Rightarrow> bool \<Rightarrow> nat" where
  "cols_of t transposed = sizes t ! (dim t - (if transposed then 2 else 1))"

text \<open>The shape the spec gives the result: the batch dimensions of the dense operand,
  then blocks of 32 by 32 for SDD and \<open>total_m\<close> by \<open>total_n\<close> for DSD and DDS, the extent
  on the sparse side being 32 times the table length less one.\<close>

definition spec_shape ::
  "tensor \<Rightarrow> tensor \<Rightarrow> string \<Rightarrow> 16 word list \<Rightarrow> int list \<Rightarrow> bool \<Rightarrow> bool \<Rightarrow> nat list" where
  "spec_shape a b mode blocks tbl trans_a trans_b =
     (if mode = ''sdd'' then leading a 2 @ [length blocks div 2, 32, 32]
      else if mode = ''dsd'' then leading b 2 @ [(length tbl - 1) * 32, cols_of b trans_b]
      else leading a 2 @ [rows_of a trans_a, (length tbl - 1) * 32])"

text \<open>Every number the dispatcher converts to \<open>uint\<close> fits 32 bits, and the table has
  its sentinel entry.\<close>

definition representable :: "tensor \<Rightarrow> tensor \<Rightarrow> layout_tensors \<Rightarrow> bool" where
  "representable a b layout \<longleftrightarrow>
     list_all (\<lambda>d. d < 2 ^ 32) (sizes a) \<and> list_all (\<lambda>d. d < 2 ^ 32) (sizes b) \<and>
     length (block_list layout) div 2 < 2 ^ 32 \<and>
     table layout \<noteq> [] \<and> (length (table layout) - 1) * 32 < 2 ^ 32"


section \<open>Stage by stage: when a call fails and what it returns\<close>

lemma and_then_Inl [simp]: "and_then (Inl e) f = Inl e"
  by (simp add: and_then_def)

lemma and_then_Inr [simp]: "and_then (Inr v) f = f v"
  by (simp add: and_then_def)

lemma and_then_eq_Inr: "and_then r f = Inr y \<longleftrightarrow> (\<exists>v. r = Inr v \<and> f v = Inr y)"
  by (cases r) simp_all

lemma and_then_eq_Inl:
  "and_then r f = Inl e \<longleftrightarrow> r = Inl e \<or> (\<exists>v. r = Inr v \<and> f v = Inl e)"
  by (cases r) simp_all

lemma size_t_Inl: "size_t t d = Inl e \<Longrightarrow> e = Dim_out_of_range"
  by (auto simp: size_t_def maybe_wrap_dim_def Let_def and_then_def split: if_splits)

lemma flatten_Inl: "flatten t s e = Inl err \<Longrightarrow> err = Dim_out_of_range \<or> err = Invalid_flatten"
  by (auto simp: flatten_def maybe_wrap_dim_def Let_def and_then_eq_Inl split: if_splits)

lemma derive_sizes_short:
  "length mode < 3 \<Longrightarrow>
   derive_sizes a b mode sw ta tb =
     Inl (if length mode = 2 \<and> mode ! 1 = CHR ''d''
             \<and> size_t a (if ta then - 1 else - 2) = Inl Dim_out_of_range
          then Dim_out_of_range else Std_out_of_range)"
  by (auto simp: derive_sizes_def string_at_def and_then_def split: sum.splits dest: size_t_Inl)

lemma sparse_matmul_short:
  "length mode < 3 \<Longrightarrow>
   sparse_matmul a b mode row_layout col_layout ta tb =
     ([], Inl (if length mode = 2 \<and> mode ! 1 = CHR ''d''
                  \<and> size_t a (if ta then - 1 else - 2) = Inl Dim_out_of_range
               then Dim_out_of_range else Std_out_of_range))"
  by (simp add: sparse_matmul_def Let_def derive_sizes_short)

lemma derive_sizes_Inl:
  "derive_sizes a b mode sw ta tb = Inl e \<Longrightarrow> 3 \<le> length mode \<Longrightarrow> e = Dim_out_of_range"
  by (auto simp: derive_sizes_def string_at_def and_then_eq_Inl split: if_splits dest: size_t_Inl)

lemma construct_shape_Inl:
  "construct_shape a b mode nb m n = Inl e \<Longrightarrow> 3 \<le> length mode \<Longrightarrow> e = Invalid_slice"
  by (auto simp: construct_shape_def string_at_def slice0_def Let_def and_then_eq_Inl
      split: if_splits)

lemma merge_batches_Inl:
  "merge_batches a b mode = Inl e \<Longrightarrow> 3 \<le> length mode
     \<Longrightarrow> e = Dim_out_of_range \<or> e = Invalid_flatten"
  by (auto simp: merge_batches_def string_at_def and_then_eq_Inl split: if_splits
      dest: size_t_Inl flatten_Inl)

lemma buffer_shape_Inl:
  "buffer_shape mode nb nblk m n = Inl e \<Longrightarrow> 3 \<le> length mode \<Longrightarrow> False"
  by (auto simp: buffer_shape_def string_at_def and_then_eq_Inl split: if_splits)

lemma new_empty_Inl: "new_empty t shp = Inl e \<Longrightarrow> e = Negative_size"
  by (auto simp: new_empty_def split: if_splits)

lemma reshape_Inl: "reshape t shp = Inl e \<Longrightarrow> e = Shape_mismatch"
  by (auto simp: reshape_def split: if_splits)

lemma dispatch_kernel_Inl:
  "dispatch_kernel a b c mode blocks layout nblk m n k ta tb = Inl e \<Longrightarrow> e = Wrong_scalar_type"
  by (auto simp: dispatch_kernel_def data_ptr_float_def and_then_eq_Inl split: if_splits)

lemma sparse_matmul_long:
  assumes "3 \<le> length mode"
  shows "snd (sparse_matmul a b mode row_layout col_layout ta tb) \<noteq> Inl Std_out_of_range"
proof
  assume "snd (sparse_matmul a b mode row_layout col_layout ta tb) = Inl Std_out_of_range"
  then show False using assms
    by (auto simp: sparse_matmul_def Let_def and_then_eq_Inl
        split: sum.splits prod.splits
        dest!: derive_sizes_Inl construct_shape_Inl merge_batches_Inl buffer_shape_Inl
          new_empty_Inl reshape_Inl dispatch_kernel_Inl)
qed

lemma nat_int_diff: "nat (int a - int b) = a - b"
  by simp

lemma nat_int_sub2: "nat (int n - 2) = n - 2"
  by arith

lemma take1_drop1: "xs \<noteq> [] \<Longrightarrow> prod_list (take (Suc 0) xs) # drop (Suc 0) xs = xs"
  by (cases xs) simp_all

lemma flatten_leading:
  "flatten t 0 (- int j) = Inr t' \<Longrightarrow> 1 < j \<Longrightarrow>
     j \<le> dim t \<and> scalar_type t' = scalar_type t \<and>
     sizes t' = numel (take (dim t - j + 1) (sizes t)) # drop (dim t - j + 1) (sizes t)"
  by (auto simp: flatten_def maybe_wrap_dim_def Let_def and_then_eq_Inr dim_def numel_def
        nat_int_diff take1_drop1 split: if_splits)

lemma flatten_rank_too_small:
  "dim t < j \<Longrightarrow> 1 < j \<Longrightarrow> flatten t 0 (- int j) = Inl Dim_out_of_range"
  by (auto simp: flatten_def maybe_wrap_dim_def Let_def dim_def)

lemma size_t_neg:
  "size_t t (- int j) = Inr v \<Longrightarrow> 0 < j \<Longrightarrow> j \<le> dim t \<and> v = sizes t ! (dim t - j)"
  by (auto simp: size_t_def maybe_wrap_dim_def Let_def and_then_eq_Inr nat_int_diff
      split: if_splits)

lemma size_t_0: "size_t t 0 = Inr v \<Longrightarrow> v = sizes t ! 0"
  by (auto simp: size_t_def maybe_wrap_dim_def Let_def and_then_eq_Inr split: if_splits)

text \<open>A successful call went through every stage.\<close>

lemma sparse_matmul_Inr:
  assumes "sparse_matmul a b mode row_layout col_layout ta tb = (evs, Inr r)"
  defines "layout \<equiv> select_layout mode row_layout col_layout ta tb"
  shows "\<exists>size_m size_n size_k shape a' b' num_batches c_shape c launched.
           derive_sizes a b mode (layout_sparse_width layout) ta tb = Inr (size_m, size_n, size_k)
         \<and> construct_shape a b mode (layout_num_blocks layout) size_m size_n = Inr shape
         \<and> merge_batches a b mode = Inr (a', b', num_batches)
         \<and> buffer_shape mode num_batches (layout_num_blocks layout) size_m size_n = Inr c_shape
         \<and> new_empty a' c_shape = Inr c
         \<and> dispatch_kernel a' b' c mode
              (launch_grid mode num_batches (layout_num_blocks layout) size_m size_n) layout
              (layout_num_blocks layout) size_m size_n size_k ta tb = Inr launched
         \<and> evs = Alloc (sizes c) # launched
         \<and> reshape c shape = Inr r"
  using assms(1) unfolding layout_def
  by (auto simp: sparse_matmul_def Let_def and_then_eq_Inr split: sum.splits prod.splits)

lemma merge_batches_Inr:
  assumes "merge_batches a b mode = Inr (a', b', nb)"
  shows "3 \<le> length mode"
    and "flatten a 0 (- int (if mode ! 1 = CHR ''d'' then 3 else 4)) = Inr a'"
    and "flatten b 0 (- int (if mode ! 2 = CHR ''d'' then 3 else 4)) = Inr b'"
    and "nb = word_of_nat (sizes a' ! 0)"
  using assms
  by (auto simp: merge_batches_def and_then_eq_Inr string_at_def split: if_splits dest: size_t_0)

lemma flatten_dim: "flatten t 0 (- int j) = Inr t' \<Longrightarrow> 1 < j \<Longrightarrow> dim t' = j"
  by (drule (1) flatten_leading) (auto simp: dim_def)

lemma flatten_hd:
  "flatten t 0 (- int j) = Inr t' \<Longrightarrow> 1 < j \<Longrightarrow> hd (sizes t') = prod_list (leading t (j - 1))"
  by (drule (1) flatten_leading) (auto simp: numel_def leading_def Suc_diff_le)

lemma construct_shape_Inr:
  assumes "construct_shape a b mode nblk m n = Inr shape"
  shows "shape = map int (leading (if mode ! 1 = CHR ''d'' then a else b) 2)
                 @ (if mode ! 0 = CHR ''d'' then [uint m, uint n] else [uint nblk, 32, 32])"
  using assms
  by (auto simp: construct_shape_def and_then_eq_Inr string_at_def slice0_def Let_def
        leading_def nat_int_sub2 split: if_splits)

lemma buffer_shape_Inr:
  assumes "buffer_shape mode nb nblk m n = Inr c_shape"
  shows "c_shape = uint nb # (if mode ! 0 = CHR ''d'' then [uint m, uint n] else [uint nblk, 32, 32])"
  using assms
  by (auto simp: buffer_shape_def and_then_eq_Inr string_at_def split: if_splits)

lemma new_empty_Inr: "new_empty t shp = Inr c \<Longrightarrow> sizes c = map nat shp"
  by (auto simp: new_empty_def split: if_splits)

lemma reshape_Inr: "reshape t shp = Inr r \<Longrightarrow> sizes r = map nat shp"
  by (auto simp: reshape_def split: if_splits)



section \<open>The claims about the dispatchers\<close>

lemmas dispatch_defs =
  sparse_matmul_def select_layout_def layout_num_blocks_def layout_sparse_width_def
  derive_sizes_def string_at_def size_t_def maybe_wrap_dim_def dim_def construct_shape_def
  slice0_def merge_batches_def flatten_def numel_def buffer_shape_def new_empty_def
  launch_grid_def dispatch_kernel_def data_ptr_float_def select_kernel_def THREADS_def
  reshape_def

lemmas op_defs =
  batched_sparse_matmul_op_def op_sdd_def op_dsd_def op_dds_def allocate_and_call_def
  pop_back_def TILE_32x32_WIDTH_def string_at_def size_t_def maybe_wrap_dim_def dim_def
  flatten_def numel_def new_empty_def data_ptr_float_def reshape_def

text \<open>
  C10, as the code has it. A mode string shorter than three characters makes the call
  fail before anything is allocated or launched. The failure is the out-of-range error
  of the position read, with one exception: a string of two characters with \<open>d\<close> at
  position 1 makes the call read an extent of A between the reads of positions 1 and 2,
  and when A has no such axis that read fails first, with the dimension error of the
  tensor library. With three or more characters no position read fails, whatever the
  string.
\<close>

theorem short_mode_fails_before_allocation:
  "(length mode < 3 \<longrightarrow>
      sparse_matmul a b mode row_layout col_layout trans_a trans_b =
        ([], Inl (if length mode = 2 \<and> mode ! 1 = CHR ''d''
                     \<and> size_t a (if trans_a then - 1 else - 2) = Inl Dim_out_of_range
                  then Dim_out_of_range else Std_out_of_range)))
   \<and> (3 \<le> length mode \<longrightarrow>
        snd (sparse_matmul a b mode row_layout col_layout trans_a trans_b)
          \<noteq> Inl Std_out_of_range)"
  by (simp add: sparse_matmul_short sparse_matmul_long)

theorem short_mode_fails_before_allocation_witness:
  "sparse_matmul \<lparr>sizes = [1, 32, 8], scalar_type = Float\<rparr>
       \<lparr>sizes = [1, 8, 32], scalar_type = Float\<rparr> ''sd''
       \<lparr>block_list = [0, 0], table = [0, 1]\<rparr> \<lparr>block_list = [0, 0], table = [0, 1]\<rparr>
       False False = ([], Inl Std_out_of_range)
   \<and> snd (sparse_matmul \<lparr>sizes = [1, 32, 8], scalar_type = Float\<rparr>
       \<lparr>sizes = [1, 8, 32], scalar_type = Float\<rparr> ''sdd''
       \<lparr>block_list = [0, 0], table = [0, 1]\<rparr> \<lparr>block_list = [0, 0], table = [0, 1]\<rparr>
       False False) \<noteq> Inl Std_out_of_range"
  using short_mode_fails_before_allocation
      [of "''sd''" "\<lparr>sizes = [1, 32, 8], scalar_type = Float\<rparr>"
          "\<lparr>sizes = [1, 8, 32], scalar_type = Float\<rparr>"
          "\<lparr>block_list = [0, 0], table = [0, 1]\<rparr>"
          "\<lparr>block_list = [0, 0], table = [0, 1]\<rparr>" False False]
    short_mode_fails_before_allocation
      [of "''sdd''" "\<lparr>sizes = [1, 32, 8], scalar_type = Float\<rparr>"
          "\<lparr>sizes = [1, 8, 32], scalar_type = Float\<rparr>"
          "\<lparr>block_list = [0, 0], table = [0, 1]\<rparr>"
          "\<lparr>block_list = [0, 0], table = [0, 1]\<rparr>" False False]
  by (simp add: size_t_def maybe_wrap_dim_def dim_def)

text \<open>
  C10 as stated fails: with the two-character mode \<open>xd\<close> and an operand A of rank 1 the
  error is not the one of \<open>std::string::at\<close>.
\<close>

theorem short_mode_counterexample:
  "sparse_matmul \<lparr>sizes = [5], scalar_type = Float\<rparr>
       \<lparr>sizes = [1, 8, 32], scalar_type = Float\<rparr> ''xd''
       \<lparr>block_list = [0, 0], table = [0, 1]\<rparr> \<lparr>block_list = [0, 0], table = [0, 1]\<rparr>
       False False = ([], Inl Dim_out_of_range)"
  by (simp add: dispatch_defs)


text \<open>
  C6, as the code has it. Position 0 of the mode gives the density of the output,
  position 1 that of operand A and position 2 that of operand B: in a call that returns,
  A is merged to rank 3 (batch, rows, columns) exactly when position 1 is \<open>d\<close> and to
  rank 4 (batch, blocks, 32, 32) otherwise, B likewise by position 2, and the buffer
  allocated for the output has rank 3 exactly when position 0 is \<open>d\<close> and rank 4
  otherwise.
\<close>

theorem mode_positions:
  assumes "sparse_matmul a b mode row_layout col_layout trans_a trans_b = (evs, Inr r)"
  shows "(\<exists>a' b' nb. merge_batches a b mode = Inr (a', b', nb)
            \<and> dim a' = (if mode ! 1 = CHR ''d'' then 3 else 4)
            \<and> dim b' = (if mode ! 2 = CHR ''d'' then 3 else 4))
       \<and> (\<exists>c. hd evs = Alloc c \<and> length c = (if mode ! 0 = CHR ''d'' then 3 else 4))"
proof -
  from sparse_matmul_Inr [OF assms] obtain size_m size_n a' b' num_batches c_shape c launched
    where mb: "merge_batches a b mode = Inr (a', b', num_batches)"
      and bs: "buffer_shape mode num_batches
                 (layout_num_blocks (select_layout mode row_layout col_layout trans_a trans_b))
                 size_m size_n = Inr c_shape"
      and ne: "new_empty a' c_shape = Inr c"
      and ev: "evs = Alloc (sizes c) # launched"
    by blast
  have "dim a' = (if mode ! 1 = CHR ''d'' then 3 else 4)"
    using flatten_dim [OF merge_batches_Inr(2) [OF mb]] by simp
  moreover have "dim b' = (if mode ! 2 = CHR ''d'' then 3 else 4)"
    using flatten_dim [OF merge_batches_Inr(3) [OF mb]] by simp
  moreover have "length (sizes c) = (if mode ! 0 = CHR ''d'' then 3 else 4)"
    using buffer_shape_Inr [OF bs] new_empty_Inr [OF ne] by simp
  ultimately show ?thesis using mb ev by simp
qed

theorem mode_positions_witness:
  "\<exists>evs r. sparse_matmul \<lparr>sizes = [1, 1, 32, 32], scalar_type = Float\<rparr>
         \<lparr>sizes = [1, 32, 32], scalar_type = Float\<rparr> ''dsd''
         \<lparr>block_list = [0, 0], table = [0, 1]\<rparr> \<lparr>block_list = [0, 0], table = [0, 1]\<rparr>
         False False = (evs, Inr r)
     \<and> (\<exists>a' b' nb. merge_batches \<lparr>sizes = [1, 1, 32, 32], scalar_type = Float\<rparr>
            \<lparr>sizes = [1, 32, 32], scalar_type = Float\<rparr> ''dsd'' = Inr (a', b', nb)
          \<and> dim a' = 4 \<and> dim b' = 3)
     \<and> (\<exists>c. hd evs = Alloc c \<and> length c = 3)"
proof -
  obtain evs r where h: "sparse_matmul \<lparr>sizes = [1, 1, 32, 32], scalar_type = Float\<rparr>
         \<lparr>sizes = [1, 32, 32], scalar_type = Float\<rparr> ''dsd''
         \<lparr>block_list = [0, 0], table = [0, 1]\<rparr> \<lparr>block_list = [0, 0], table = [0, 1]\<rparr>
         False False = (evs, Inr r)"
    by (simp add: dispatch_defs)
  from mode_positions [OF h] h show ?thesis by simp
qed

text \<open>
  C6 as stated fails: in the mode \<open>dsd\<close> the first letter is \<open>d\<close>, yet a dense A (rank 3)
  with B in block form is refused, while A in block form (rank 4) with a dense B is
  accepted and gives a dense output.
\<close>

theorem mode_positions_counterexample:
  "sparse_matmul \<lparr>sizes = [1, 32, 32], scalar_type = Float\<rparr>
       \<lparr>sizes = [1, 1, 32, 32], scalar_type = Float\<rparr> ''dsd''
       \<lparr>block_list = [0, 0], table = [0, 1]\<rparr> \<lparr>block_list = [0, 0], table = [0, 1]\<rparr>
       False False = ([], Inl Dim_out_of_range)
   \<and> snd (sparse_matmul \<lparr>sizes = [1, 1, 32, 32], scalar_type = Float\<rparr>
       \<lparr>sizes = [1, 32, 32], scalar_type = Float\<rparr> ''dsd''
       \<lparr>block_list = [0, 0], table = [0, 1]\<rparr> \<lparr>block_list = [0, 0], table = [0, 1]\<rparr>
       False False) = Inr \<lparr>sizes = [1, 32, 32], scalar_type = Float\<rparr>"
  by (simp add: dispatch_defs)

lemma flatten_ok:
  "j \<le> dim t \<Longrightarrow> 1 < j \<Longrightarrow> \<exists>t'. flatten t 0 (- int j) = Inr t'"
  by (auto simp: flatten_def maybe_wrap_dim_def Let_def dim_def)







lemma size_t_m1: "size_t t (- 1) = Inr v \<Longrightarrow> 1 \<le> dim t \<and> v = sizes t ! (dim t - 1)"
  using size_t_neg [of t 1 v] by simp

lemma size_t_m2: "size_t t (- 2) = Inr v \<Longrightarrow> 2 \<le> dim t \<and> v = sizes t ! (dim t - 2)"
  using size_t_neg [of t 2 v] by simp

lemma derive_sizes_Inr:
  assumes "derive_sizes a b mode sw ta tb = Inr (m, n, k)"
  shows "m = (if mode ! 1 = CHR ''d'' then word_of_nat (rows_of a ta) else sw)"
    and "n = (if mode ! 2 = CHR ''d'' then word_of_nat (cols_of b tb) else sw)"
    and "k = word_of_nat (if mode ! 2 = CHR ''d'' then rows_of b tb else cols_of a ta)"
    and "mode ! 1 = CHR ''d'' \<Longrightarrow> 0 < dim a"
    and "mode ! 2 = CHR ''d'' \<Longrightarrow> 0 < dim b"
  using assms
  by (auto simp: derive_sizes_def and_then_eq_Inr string_at_def rows_of_def cols_of_def
      split: if_splits dest!: size_t_m1 size_t_m2)

lemma merge_batches_rank:
  assumes "3 \<le> length mode"
    and "dim a < (if mode ! 1 = CHR ''d'' then 3 else 4)
         \<or> dim b < (if mode ! 2 = CHR ''d'' then 3 else 4)"
  shows "merge_batches a b mode = Inl Dim_out_of_range"
proof (cases "dim a < (if mode ! 1 = CHR ''d'' then 3 else 4)")
  case True
  then have "flatten a 0 (if mode ! 1 = CHR ''d'' then - 3 else - 4) = Inl Dim_out_of_range"
    using flatten_rank_too_small [of a 3] flatten_rank_too_small [of a 4]
    by (simp split: if_splits)
  then show ?thesis using assms(1) by (simp add: merge_batches_def string_at_def)
next
  case False
  with assms(2) have "dim b < (if mode ! 2 = CHR ''d'' then 3 else 4)" by blast
  then have fb: "flatten b 0 (if mode ! 2 = CHR ''d'' then - 3 else - 4) = Inl Dim_out_of_range"
    using flatten_rank_too_small [of b 3] flatten_rank_too_small [of b 4]
    by (simp split: if_splits)
  show ?thesis
  proof (cases "flatten a 0 (if mode ! 1 = CHR ''d'' then - 3 else - 4)")
    case (Inl e)
    then have "e = Dim_out_of_range"
      by (auto simp: flatten_def maybe_wrap_dim_def Let_def and_then_eq_Inl split: if_splits)
    with Inl show ?thesis using assms(1) by (simp add: merge_batches_def string_at_def)
  next
    case (Inr a')
    with fb show ?thesis using assms(1) by (simp add: merge_batches_def string_at_def)
  qed
qed

text \<open>
  C7, as the code has it. In each of the three modes an operand whose rank is too small
  (below 3 for a dense operand, below 4 for one in block form) makes the call fail before
  anything is allocated or launched, with the dimension or slice error of the tensor
  library. Extents are not compared between the operands: the reduction extent passed
  on is read from B alone (from A alone in the mode \<open>dds\<close>), and the number of batches
  is the product of the batch dimensions of A alone.
\<close>

theorem rank_too_small_fails:
  assumes "mode \<in> {''sdd'', ''dsd'', ''dds''}"
  shows "(dim a < (if mode ! 1 = CHR ''d'' then 3 else 4)
            \<or> dim b < (if mode ! 2 = CHR ''d'' then 3 else 4) \<longrightarrow>
          (\<exists>e. sparse_matmul a b mode row_layout col_layout trans_a trans_b = ([], Inl e)
              \<and> e \<in> {Dim_out_of_range, Invalid_slice}))
       \<and> (\<forall>m n k. derive_sizes a b mode sw trans_a trans_b = Inr (m, n, k) \<longrightarrow>
            k = word_of_nat (if mode = ''dds'' then cols_of a trans_a else rows_of b trans_b))
       \<and> (\<forall>a' b' nb. merge_batches a b mode = Inr (a', b', nb) \<longrightarrow>
            nb = word_of_nat (prod_list (leading a (if mode = ''dsd'' then 3 else 2))))"
proof (intro conjI impI allI)
  assume small: "dim a < (if mode ! 1 = CHR ''d'' then 3 else 4)
            \<or> dim b < (if mode ! 2 = CHR ''d'' then 3 else 4)"
  have len: "3 \<le> length mode" using assms by auto
  let ?layout = "select_layout mode row_layout col_layout trans_a trans_b"
  show "\<exists>e. sparse_matmul a b mode row_layout col_layout trans_a trans_b = ([], Inl e)
              \<and> e \<in> {Dim_out_of_range, Invalid_slice}"
  proof (cases "derive_sizes a b mode (layout_sparse_width ?layout) trans_a trans_b")
    case (Inl e)
    with derive_sizes_Inl [OF Inl len] show ?thesis
      by (simp add: sparse_matmul_def Let_def)
  next
    case (Inr sz)
    obtain size_m size_n size_k where sz: "sz = (size_m, size_n, size_k)"
      by (cases sz) auto
    show ?thesis
    proof (cases "construct_shape a b mode (layout_num_blocks ?layout) size_m size_n")
      case (Inl e)
      with construct_shape_Inl [OF Inl len] Inr sz show ?thesis
        by (simp add: sparse_matmul_def Let_def)
    next
      case shape: (Inr shape)
      from merge_batches_rank [OF len small] Inr sz shape show ?thesis
        by (simp add: sparse_matmul_def Let_def)
    qed
  qed
next
  fix m n k
  assume "derive_sizes a b mode sw trans_a trans_b = Inr (m, n, k)"
  from derive_sizes_Inr(3) [OF this] assms
  show "k = word_of_nat (if mode = ''dds'' then cols_of a trans_a else rows_of b trans_b)"
    by auto
next
  fix a' b' nb
  assume mb: "merge_batches a b mode = Inr (a', b', nb)"
  have "sizes a' \<noteq> []"
    using flatten_leading [OF merge_batches_Inr(2) [OF mb]] by auto
  then have "sizes a' ! 0 = hd (sizes a')"
    by (simp add: hd_conv_nth)
  with merge_batches_Inr(4) [OF mb] flatten_hd [OF merge_batches_Inr(2) [OF mb]] assms
  show "nb = word_of_nat (prod_list (leading a (if mode = ''dsd'' then 3 else 2)))"
    by auto
qed

theorem rank_too_small_fails_witness:
  "''sdd'' \<in> {''sdd'', ''dsd'', ''dds''}
   \<and> dim \<lparr>sizes = [32, 8], scalar_type = Float\<rparr> < 3
   \<and> (\<exists>e. sparse_matmul \<lparr>sizes = [32, 8], scalar_type = Float\<rparr>
         \<lparr>sizes = [1, 8, 32], scalar_type = Float\<rparr> ''sdd''
         \<lparr>block_list = [0, 0], table = [0, 1]\<rparr> \<lparr>block_list = [0, 0], table = [0, 1]\<rparr>
         False False = ([], Inl e))
   \<and> derive_sizes \<lparr>sizes = [32, 8], scalar_type = Float\<rparr>
         \<lparr>sizes = [1, 8, 32], scalar_type = Float\<rparr> ''sdd'' 32 False False = Inr (32, 32, 8)
   \<and> merge_batches \<lparr>sizes = [2, 3, 32, 8], scalar_type = Float\<rparr>
         \<lparr>sizes = [2, 3, 8, 32], scalar_type = Float\<rparr> ''sdd''
       = Inr (\<lparr>sizes = [6, 32, 8], scalar_type = Float\<rparr>,
              \<lparr>sizes = [6, 8, 32], scalar_type = Float\<rparr>, 6)
   \<and> (6 :: uint) = word_of_nat (prod_list (leading \<lparr>sizes = [2, 3, 32, 8], scalar_type = Float\<rparr> 2))"
proof -
  have mb: "merge_batches \<lparr>sizes = [2, 3, 32, 8], scalar_type = Float\<rparr>
         \<lparr>sizes = [2, 3, 8, 32], scalar_type = Float\<rparr> ''sdd''
       = Inr (\<lparr>sizes = [6, 32, 8], scalar_type = Float\<rparr>,
              \<lparr>sizes = [6, 8, 32], scalar_type = Float\<rparr>, 6)"
    by (simp add: dispatch_defs)
  have h: "''sdd'' \<in> {''sdd'', ''dsd'', ''dds''}" by simp
  have d: "derive_sizes \<lparr>sizes = [32, 8], scalar_type = Float\<rparr>
         \<lparr>sizes = [1, 8, 32], scalar_type = Float\<rparr> ''sdd'' 32 False False = Inr (32, 32, 8)"
    by (simp add: dispatch_defs)
  have "(6 :: uint) = word_of_nat (prod_list (leading \<lparr>sizes = [2, 3, 32, 8], scalar_type = Float\<rparr> 2))"
    using mb rank_too_small_fails [OF h, of "\<lparr>sizes = [2, 3, 32, 8], scalar_type = Float\<rparr>"
        "\<lparr>sizes = [2, 3, 8, 32], scalar_type = Float\<rparr>"
        "\<lparr>block_list = [0, 0], table = [0, 1]\<rparr>" "\<lparr>block_list = [0, 0], table = [0, 1]\<rparr>"
        False False 32]
    by simp
  then show ?thesis
    using h d mb rank_too_small_fails [OF h, of "\<lparr>sizes = [32, 8], scalar_type = Float\<rparr>"
        "\<lparr>sizes = [1, 8, 32], scalar_type = Float\<rparr>"
        "\<lparr>block_list = [0, 0], table = [0, 1]\<rparr>" "\<lparr>block_list = [0, 0], table = [0, 1]\<rparr>"
        False False 32]
    by (auto simp: dim_def)
qed

text \<open>
  C7 as stated fails: A has 8 columns and B has 16 rows, and the call allocates, launches
  the kernel with the reduction extent 16 and returns; and operands of 2 and of 3
  batches in the mode \<open>dsd\<close> are refused only by the final reshape, after the launch.
\<close>

theorem shape_mismatch_counterexample:
  "sparse_matmul \<lparr>sizes = [1, 32, 8], scalar_type = Float\<rparr>
       \<lparr>sizes = [1, 16, 32], scalar_type = Float\<rparr> ''sdd''
       \<lparr>block_list = [0, 0], table = [0, 1]\<rparr> \<lparr>block_list = [0, 0], table = [0, 1]\<rparr>
       False False
   = ([Alloc [1, 1, 32, 32],
       Launch \<lparr>l_kernel = Sparse_matmul_sdd_32x32x8_kernel,
               l_blocks = \<lparr>dim_x = 1, dim_y = 1, dim_z = 1\<rparr>, l_threads = 256,
               l_layout = \<lparr>block_list = [0, 0], table = [0, 1]\<rparr>,
               l_num_blocks = 1, l_size_m = 32, l_size_n = 32, l_size_k = 16,
               l_trans_a = False, l_trans_b = False\<rparr>],
      Inr \<lparr>sizes = [1, 1, 32, 32], scalar_type = Float\<rparr>)
   \<and> sparse_matmul \<lparr>sizes = [2, 1, 32, 32], scalar_type = Float\<rparr>
       \<lparr>sizes = [3, 32, 32], scalar_type = Float\<rparr> ''dsd''
       \<lparr>block_list = [0, 0], table = [0, 1]\<rparr> \<lparr>block_list = [0, 0], table = [0, 1]\<rparr>
       False False
   = ([Alloc [2, 32, 32],
       Launch \<lparr>l_kernel = Sparse_matmul_sdd_32x32x8_kernel,
               l_blocks = \<lparr>dim_x = 2, dim_y = 1, dim_z = 1\<rparr>, l_threads = 256,
               l_layout = \<lparr>block_list = [0, 0], table = [0, 1]\<rparr>,
               l_num_blocks = 1, l_size_m = 32, l_size_n = 32, l_size_k = 32,
               l_trans_a = False, l_trans_b = False\<rparr>],
      Inl Shape_mismatch)"
  by (simp add: dispatch_defs)


lemma butlast2: "butlast (butlast xs) = take (length xs - 2) xs"
  by (simp add: butlast_conv_take numeral_2_eq_2)

lemma map_nat_int: "map (nat \<circ> int) xs = xs"
  by (induction xs) simp_all

lemma nat_half: "nat (int n div 2) = n div 2"
  by (simp add: nat_div_distrib)

lemma nat_width: "nat (int n * 32 - 32) = (n - 1) * 32"
  by arith

lemma allocate_and_call_Inr:
  "allocate_and_call op a b c_shape scalars ta tb output_shape = (evs, Inr r)
     \<Longrightarrow> sizes r = map nat output_shape"
  by (auto simp: allocate_and_call_def split: sum.splits dest: reshape_Inr)

lemma op_sdd_Inr:
  assumes "op_sdd a b row_blocks ta tb = (evs, Inr r)"
  shows "sizes r = leading a 2 @ [length row_blocks div 2, 32, 32]"
proof -
  from assms obtain a' b' c_shape scalars where
    "allocate_and_call Batched_sparse_matmul_op_32x32_sdd a' b' c_shape scalars ta tb
       (butlast (butlast (map int (sizes a))) @ [int (length row_blocks) div 2, 32, 32])
     = (evs, Inr r)"
    by (auto simp: op_sdd_def pop_back_def and_then_eq_Inr Let_def TILE_32x32_WIDTH_def
        split: sum.splits if_splits)
  from allocate_and_call_Inr [OF this] show ?thesis
    by (simp add: butlast2 leading_def dim_def take_map [symmetric] map_nat_int nat_half)
qed

lemma op_dsd_Inr:
  assumes "op_dsd a b row_blocks row_table col_blocks col_table ta tb = (evs, Inr r)"
  shows "sizes r = leading b 2
           @ [(length (if ta then col_table else row_table) - 1) * 32, cols_of b tb]"
proof -
  from assms obtain a' b' c_shape scalars total_n where
    n: "size_t b (if tb then - 2 else - 1) = Inr total_n" and
    "allocate_and_call Batched_sparse_matmul_op_32x32_dsd a' b' c_shape scalars ta tb
       (butlast (butlast (map int (sizes b)))
         @ [(int (length (if ta then col_table else row_table)) - 1) * 32, int total_n])
     = (evs, Inr r)"
    by (auto simp: op_dsd_def pop_back_def and_then_eq_Inr Let_def TILE_32x32_WIDTH_def
        split: sum.splits if_splits)
  from allocate_and_call_Inr [OF this(2)] n show ?thesis
    by (auto simp: butlast2 leading_def dim_def take_map [symmetric] map_nat_int cols_of_def
        nat_width
        split: if_splits dest!: size_t_m1 size_t_m2)
qed

lemma op_dds_Inr:
  assumes "op_dds a b row_blocks row_table col_blocks col_table ta tb = (evs, Inr r)"
  shows "sizes r = leading a 2
           @ [rows_of a ta, (length (if tb then row_table else col_table) - 1) * 32]"
proof -
  from assms obtain a' b' c_shape scalars total_m where
    m: "size_t a (if ta then - 1 else - 2) = Inr total_m" and
    "allocate_and_call Batched_sparse_matmul_op_32x32_dds a' b' c_shape scalars ta tb
       (butlast (butlast (map int (sizes a)))
         @ [int total_m, (int (length (if tb then row_table else col_table)) - 1) * 32])
     = (evs, Inr r)"
    by (auto simp: op_dds_def pop_back_def and_then_eq_Inr Let_def TILE_32x32_WIDTH_def
        split: sum.splits if_splits)
  from allocate_and_call_Inr [OF this(2)] m show ?thesis
    by (auto simp: butlast2 leading_def dim_def take_map [symmetric] map_nat_int rows_of_def
        nat_width
        split: if_splits dest!: size_t_m1 size_t_m2)
qed


lemma unat_fit: "n < 2 ^ 32 \<Longrightarrow> unat (word_of_nat n :: uint) = n"
  by (simp add: unat_of_nat)

lemma sparse_width_fit:
  assumes "tbl \<noteq> []" and "(length tbl - 1) * 32 < 2 ^ 32"
  shows "unat (word_of_int ((int (length tbl) - 1) * 32) :: uint) = (length tbl - 1) * 32"
proof -
  obtain x xs where "tbl = x # xs"
    using assms(1) by (cases tbl) auto
  then have "(word_of_int ((int (length tbl) - 1) * 32) :: uint)
               = word_of_nat ((length tbl - 1) * 32)"
    by simp
  then show ?thesis
    using unat_fit [OF assms(2)] by (simp only:)
qed

lemma extent_fit:
  "list_all (\<lambda>d. d < 2 ^ 32) (sizes t) \<Longrightarrow> 0 < dim t \<Longrightarrow> 0 < j
     \<Longrightarrow> sizes t ! (dim t - j) < 2 ^ 32"
  by (simp add: list_all_length dim_def)

lemma sparse_matmul_shape:
  assumes mode: "mode \<in> {''sdd'', ''dsd'', ''dds''}"
    and ok: "sparse_matmul a b mode row_layout col_layout ta tb = (evs, Inr r)"
    and fit: "representable a b (select_layout mode row_layout col_layout ta tb)"
  shows "sizes r = spec_shape a b mode
           (block_list (select_layout mode row_layout col_layout ta tb))
           (table (select_layout mode row_layout col_layout ta tb)) ta tb"
proof -
  let ?layout = "select_layout mode row_layout col_layout ta tb"
  from sparse_matmul_Inr [OF ok] obtain size_m size_n size_k shape c
    where ds: "derive_sizes a b mode (layout_sparse_width ?layout) ta tb
                 = Inr (size_m, size_n, size_k)"
      and cs: "construct_shape a b mode (layout_num_blocks ?layout) size_m size_n = Inr shape"
      and rs: "reshape c shape = Inr r"
    by blast
  have r: "sizes r = leading (if mode ! 1 = CHR ''d'' then a else b) 2
             @ (if mode ! 0 = CHR ''d'' then [nat (uint size_m), nat (uint size_n)]
                else [nat (uint (layout_num_blocks ?layout)), 32, 32])"
    using construct_shape_Inr [OF cs] reshape_Inr [OF rs] by (simp add: comp_def)
  have nblk: "unat (layout_num_blocks ?layout) = length (block_list ?layout) div 2"
    using fit unfolding representable_def layout_num_blocks_def by (intro unat_fit) blast
  have sw: "unat (layout_sparse_width ?layout) = (length (table ?layout) - 1) * 32"
    using fit unfolding representable_def layout_sparse_width_def
    by (intro sparse_width_fit) blast+
  have rows: "mode ! 1 = CHR ''d'' \<Longrightarrow> unat (word_of_nat (rows_of a ta) :: uint) = rows_of a ta"
    using fit derive_sizes_Inr(4) [OF ds] unfolding representable_def rows_of_def
    by (intro unat_fit extent_fit) auto
  have cols: "mode ! 2 = CHR ''d'' \<Longrightarrow> unat (word_of_nat (cols_of b tb) :: uint) = cols_of b tb"
    using fit derive_sizes_Inr(5) [OF ds] unfolding representable_def cols_of_def
    by (intro unat_fit extent_fit) auto
  from mode consider "mode = ''sdd''" | "mode = ''dsd''" | "mode = ''dds''" by blast
  then show ?thesis
  proof cases
    case 1
    then show ?thesis using r nblk by (simp add: spec_shape_def)
  next
    case 2
    then show ?thesis using r sw cols derive_sizes_Inr(1,2) [OF ds] by (simp add: spec_shape_def)
  next
    case 3
    then show ?thesis using r sw rows derive_sizes_Inr(1,2) [OF ds] by (simp add: spec_shape_def)
  qed
qed

lemma batched_op_shape:
  assumes "batched_sparse_matmul_op a b mode row_blocks row_table col_blocks col_table ta tb
             = (evs, Inr r)"
  shows "sizes r = spec_shape a b mode
           (block_list (select_layout mode \<lparr>block_list = row_blocks, table = row_table\<rparr>
                          \<lparr>block_list = col_blocks, table = col_table\<rparr> ta tb))
           (table (select_layout mode \<lparr>block_list = row_blocks, table = row_table\<rparr>
                          \<lparr>block_list = col_blocks, table = col_table\<rparr> ta tb)) ta tb"
proof -
  from assms consider
      "mode = ''sdd''" "op_sdd a b row_blocks ta tb = (evs, Inr r)"
    | "mode = ''dsd''"
      "op_dsd a b row_blocks row_table col_blocks col_table ta tb = (evs, Inr r)"
    | "mode = ''dds''"
      "op_dds a b row_blocks row_table col_blocks col_table ta tb = (evs, Inr r)"
    by (auto simp: batched_sparse_matmul_op_def split: if_splits)
  then show ?thesis
  proof cases
    case 1
    then show ?thesis using op_sdd_Inr [OF 1(2)] by (simp add: spec_shape_def select_layout_def)
  next
    case 2
    then show ?thesis using op_dsd_Inr [OF 2(2)] by (simp add: spec_shape_def select_layout_def)
  next
    case 3
    then show ?thesis using op_dds_Inr [OF 3(2)] by (simp add: spec_shape_def select_layout_def)
  qed
qed


text \<open>
  C8. A call that returns gives a tensor whose shape is the batch dimensions of the
  dense operand followed by the trailing shape of the mode: the number of blocks (half
  the length of the block list), 32 and 32 for SDD; \<open>total_m\<close> and \<open>total_n\<close> for DSD and
  DDS, the one on the sparse side being 32 times the table length less one and the one
  on the dense side read from the trailing two axes, swapped under the transpose flag.
  For \<open>sparse_matmul\<close> this needs every extent to fit the 32 bits it is converted to;
  \<open>batched_sparse_matmul_op\<close> keeps 64 bits throughout.
\<close>

theorem result_shape:
  "(mode \<in> {''sdd'', ''dsd'', ''dds''}
      \<and> sparse_matmul a b mode row_layout col_layout trans_a trans_b = (evs, Inr r)
      \<and> representable a b (select_layout mode row_layout col_layout trans_a trans_b)
    \<longrightarrow> sizes r = spec_shape a b mode
          (block_list (select_layout mode row_layout col_layout trans_a trans_b))
          (table (select_layout mode row_layout col_layout trans_a trans_b)) trans_a trans_b)
   \<and> (batched_sparse_matmul_op a b mode row_blocks row_table col_blocks col_table
         trans_a trans_b = (evs', Inr r')
    \<longrightarrow> sizes r' = spec_shape a b mode
          (block_list (select_layout mode \<lparr>block_list = row_blocks, table = row_table\<rparr>
                         \<lparr>block_list = col_blocks, table = col_table\<rparr> trans_a trans_b))
          (table (select_layout mode \<lparr>block_list = row_blocks, table = row_table\<rparr>
                         \<lparr>block_list = col_blocks, table = col_table\<rparr> trans_a trans_b))
          trans_a trans_b)"
proof (intro conjI impI)
  assume "mode \<in> {''sdd'', ''dsd'', ''dds''}
      \<and> sparse_matmul a b mode row_layout col_layout trans_a trans_b = (evs, Inr r)
      \<and> representable a b (select_layout mode row_layout col_layout trans_a trans_b)"
  then show "sizes r = spec_shape a b mode
          (block_list (select_layout mode row_layout col_layout trans_a trans_b))
          (table (select_layout mode row_layout col_layout trans_a trans_b)) trans_a trans_b"
    using sparse_matmul_shape [of mode a b row_layout col_layout trans_a trans_b evs r]
    by (elim conjE)
next
  assume "batched_sparse_matmul_op a b mode row_blocks row_table col_blocks col_table
         trans_a trans_b = (evs', Inr r')"
  then show "sizes r' = spec_shape a b mode
          (block_list (select_layout mode \<lparr>block_list = row_blocks, table = row_table\<rparr>
                         \<lparr>block_list = col_blocks, table = col_table\<rparr> trans_a trans_b))
          (table (select_layout mode \<lparr>block_list = row_blocks, table = row_table\<rparr>
                         \<lparr>block_list = col_blocks, table = col_table\<rparr> trans_a trans_b))
          trans_a trans_b"
    by (rule batched_op_shape)
qed

theorem result_shape_witness:
  "\<exists>evs r evs' r'.
     ''dsd'' \<in> {''sdd'', ''dsd'', ''dds''}
   \<and> sparse_matmul \<lparr>sizes = [2, 3, 1, 32, 32], scalar_type = Float\<rparr>
         \<lparr>sizes = [2, 3, 32, 64], scalar_type = Float\<rparr> ''dsd''
         \<lparr>block_list = [0, 0], table = [0, 1]\<rparr> \<lparr>block_list = [0, 0], table = [0, 1]\<rparr>
         False False = (evs, Inr r)
   \<and> representable \<lparr>sizes = [2, 3, 1, 32, 32], scalar_type = Float\<rparr>
         \<lparr>sizes = [2, 3, 32, 64], scalar_type = Float\<rparr> \<lparr>block_list = [0, 0], table = [0, 1]\<rparr>
   \<and> batched_sparse_matmul_op \<lparr>sizes = [2, 3, 1, 32, 32], scalar_type = Float\<rparr>
         \<lparr>sizes = [2, 3, 32, 64], scalar_type = Float\<rparr> ''dsd'' [0, 0] [0, 1] [0, 0] [0, 1]
         False False = (evs', Inr r')
   \<and> sizes r = [2, 3, 32, 64] \<and> sizes r' = [2, 3, 32, 64]"
proof -
  let ?a = "\<lparr>sizes = [2, 3, 1, 32, 32], scalar_type = Float\<rparr>"
  let ?b = "\<lparr>sizes = [2, 3, 32, 64], scalar_type = Float\<rparr>"
  let ?l = "\<lparr>block_list = [0, 0], table = [0, 1]\<rparr>"
  obtain evs r where h1: "sparse_matmul ?a ?b ''dsd'' ?l ?l False False = (evs, Inr r)"
    by (simp add: dispatch_defs)
  obtain evs' r' where h2: "batched_sparse_matmul_op ?a ?b ''dsd'' [0, 0] [0, 1] [0, 0] [0, 1]
         False False = (evs', Inr r')"
    by (simp add: op_defs)
  have sel: "select_layout ''dsd'' ?l ?l False False = ?l"
    by (simp add: select_layout_def)
  have h3: "representable ?a ?b ?l"
    by (simp add: representable_def)
  have m: "''dsd'' \<in> {''sdd'', ''dsd'', ''dds''}"
    by simp
  have res: "sizes r = [2, 3, 32, 64] \<and> sizes r' = [2, 3, 32, 64]"
    using result_shape [of "''dsd''" ?a ?b ?l ?l False False evs r "[0, 0]" "[0, 1]" "[0, 0]"
        "[0, 1]" evs' r'] h1 h2 h3
    by (simp add: sel spec_shape_def leading_def cols_of_def dim_def)
  show ?thesis
    apply (rule exI [of _ evs], rule exI [of _ r], rule exI [of _ evs'], rule exI [of _ r'])
    using m h1 h2 h3 res by (intro conjI) (elim conjE, assumption)+
qed


subsection \<open>A mode that is none of the three\<close>

lemma size_t_ok: "0 < j \<Longrightarrow> j \<le> dim t \<Longrightarrow> \<exists>v. size_t t (- int j) = Inr v"
  by (auto simp: size_t_def maybe_wrap_dim_def Let_def dim_def)

lemma derive_sizes_ok:
  assumes "3 \<le> length mode" and "2 \<le> dim a" and "2 \<le> dim b"
  shows "\<exists>sz. derive_sizes a b mode sw ta tb = Inr sz"
proof -
  obtain a1 a2 b1 b2 where
    "size_t a (- 1) = Inr a1" "size_t a (- 2) = Inr a2"
    "size_t b (- 1) = Inr b1" "size_t b (- 2) = Inr b2"
    using size_t_ok [of 1 a] size_t_ok [of 2 a] size_t_ok [of 1 b] size_t_ok [of 2 b] assms(2,3)
    by auto
  then show ?thesis
    using assms(1) by (simp add: derive_sizes_def string_at_def)
qed

lemma construct_shape_ok:
  assumes "3 \<le> length mode" and "2 \<le> dim a" and "2 \<le> dim b"
  shows "\<exists>shape. construct_shape a b mode nblk m n = Inr shape"
  using assms by (auto simp: construct_shape_def string_at_def slice0_def Let_def dim_def)

lemma merge_batches_ok:
  assumes "3 \<le> length mode"
    and "(if mode ! 1 = CHR ''d'' then 3 else 4) \<le> dim a"
    and "(if mode ! 2 = CHR ''d'' then 3 else 4) \<le> dim b"
  shows "\<exists>a' b' nb. merge_batches a b mode = Inr (a', b', nb)
           \<and> scalar_type a' = scalar_type a \<and> scalar_type b' = scalar_type b"
proof -
  have ja: "1 < (if mode ! 1 = CHR ''d'' then 3 else 4 :: nat)"
    and jb: "1 < (if mode ! 2 = CHR ''d'' then 3 else 4 :: nat)"
    by simp_all
  obtain a' where fa: "flatten a 0 (- int (if mode ! 1 = CHR ''d'' then 3 else 4)) = Inr a'"
    using flatten_ok [OF assms(2) ja] by blast
  obtain b' where fb: "flatten b 0 (- int (if mode ! 2 = CHR ''d'' then 3 else 4)) = Inr b'"
    using flatten_ok [OF assms(3) jb] by blast
  have ta: "scalar_type a' = scalar_type a" and da: "0 < dim a'"
    using flatten_leading [OF fa ja] flatten_dim [OF fa ja] by (simp_all split: if_splits)
  have tb: "scalar_type b' = scalar_type b"
    using flatten_leading [OF fb jb] by simp
  have "size_t a' 0 = Inr (sizes a' ! 0)"
    using da by (simp add: size_t_def maybe_wrap_dim_def dim_def)
  then have "merge_batches a b mode = Inr (a', b', word_of_nat (sizes a' ! 0))"
    using fa fb assms(1) by (simp add: merge_batches_def string_at_def split: if_splits)
  with ta tb show ?thesis by blast
qed

lemma buffer_allocated:
  assumes "3 \<le> length mode"
  shows "\<exists>c_shape c. buffer_shape mode nb nblk m n = Inr c_shape
           \<and> new_empty a' c_shape = Inr c \<and> scalar_type c = scalar_type a'"
  using assms by (auto simp: buffer_shape_def string_at_def new_empty_def)

text \<open>With three characters or more and ranks large enough for the letters, the call
  reaches the allocation, and with single precision the launch.\<close>

lemma sparse_matmul_allocates:
  assumes len: "3 \<le> length mode"
    and ra: "(if mode ! 1 = CHR ''d'' then 3 else 4) \<le> dim a"
    and rb: "(if mode ! 2 = CHR ''d'' then 3 else 4) \<le> dim b"
  shows "\<exists>c rest res.
           sparse_matmul a b mode row_layout col_layout ta tb = (Alloc c # rest, res)
         \<and> (scalar_type a = Float \<and> scalar_type b = Float \<longrightarrow>
              (\<exists>l. rest = [Launch l]
                 \<and> l_layout l = select_layout mode row_layout col_layout ta tb
                 \<and> l_kernel l = Sparse_matmul_sdd_32x32x8_kernel))"
proof -
  let ?layout = "select_layout mode row_layout col_layout ta tb"
  have d2: "2 \<le> dim a" "2 \<le> dim b"
    using ra rb by (simp_all split: if_splits)
  obtain size_m size_n size_k where ds:
    "derive_sizes a b mode (layout_sparse_width ?layout) ta tb = Inr (size_m, size_n, size_k)"
    using derive_sizes_ok [OF len d2] by (metis prod_cases3)
  obtain shape where cs:
    "construct_shape a b mode (layout_num_blocks ?layout) size_m size_n = Inr shape"
    using construct_shape_ok [OF len d2] by blast
  obtain a' b' nb where mb: "merge_batches a b mode = Inr (a', b', nb)"
    and ty: "scalar_type a' = scalar_type a" "scalar_type b' = scalar_type b"
    using merge_batches_ok [OF len ra rb] by blast
  obtain c_shape c where bs:
    "buffer_shape mode nb (layout_num_blocks ?layout) size_m size_n = Inr c_shape"
    and ne: "new_empty a' c_shape = Inr c" and tc: "scalar_type c = scalar_type a'"
    using buffer_allocated [OF len] by blast
  show ?thesis
  proof (cases "scalar_type a = Float \<and> scalar_type b = Float")
    case True
    then show ?thesis
      using ds cs mb bs ne ty tc
      by (simp add: sparse_matmul_def Let_def dispatch_kernel_def data_ptr_float_def
          select_kernel_def)
  next
    case False
    then show ?thesis
      using ds cs mb bs ne ty tc
      by (auto simp: sparse_matmul_def Let_def dispatch_kernel_def data_ptr_float_def)
  qed
qed

text \<open>With three characters or more and an operand of too small a rank for the letters,
  the call fails before the allocation.\<close>

lemma sparse_matmul_rank_refused:
  assumes len: "3 \<le> length mode"
    and small: "dim a < (if mode ! 1 = CHR ''d'' then 3 else 4)
                \<or> dim b < (if mode ! 2 = CHR ''d'' then 3 else 4)"
  shows "\<exists>e. sparse_matmul a b mode row_layout col_layout ta tb = ([], Inl e)
           \<and> e \<in> {Dim_out_of_range, Invalid_slice}"
proof -
  let ?layout = "select_layout mode row_layout col_layout ta tb"
  show ?thesis
  proof (cases "derive_sizes a b mode (layout_sparse_width ?layout) ta tb")
    case (Inl e)
    with derive_sizes_Inl [OF Inl len] show ?thesis
      by (simp add: sparse_matmul_def Let_def)
  next
    case (Inr sz)
    obtain size_m size_n size_k where sz: "sz = (size_m, size_n, size_k)"
      by (cases sz) auto
    show ?thesis
    proof (cases "construct_shape a b mode (layout_num_blocks ?layout) size_m size_n")
      case (Inl e)
      with construct_shape_Inl [OF Inl len] Inr sz show ?thesis
        by (simp add: sparse_matmul_def Let_def)
    next
      case shape: (Inr shape)
      from merge_batches_rank [OF len small] Inr sz shape show ?thesis
        by (simp add: sparse_matmul_def Let_def)
    qed
  qed
qed

text \<open>
  C4, as the code has it. \<open>sparse_matmul\<close> does not check the mode against the three
  names and reports no invalid mode. With a mode that is none of them it selects the
  column layout, and the call fails before any allocation or launch exactly when the
  mode has fewer than three characters or an operand has too small a rank for the letter
  at its position (A by position 1, B by position 2: rank 3 for \<open>d\<close>, rank 4 for any other
  letter); the failure is then the range error of the string or the dimension or slice
  error of the tensor library. In every other case the call allocates the output buffer
  and, with both operands in single precision, launches the kernel on the column layout.
\<close>

theorem unrecognised_mode:
  assumes "mode \<notin> {''sdd'', ''dsd'', ''dds''}"
  shows "select_layout mode row_layout col_layout trans_a trans_b = col_layout
       \<and> (length mode < 3
            \<or> dim a < (if mode ! 1 = CHR ''d'' then 3 else 4)
            \<or> dim b < (if mode ! 2 = CHR ''d'' then 3 else 4) \<longrightarrow>
          (\<exists>e. sparse_matmul a b mode row_layout col_layout trans_a trans_b = ([], Inl e)
              \<and> e \<in> {Std_out_of_range, Dim_out_of_range, Invalid_slice}))
       \<and> (3 \<le> length mode
            \<and> (if mode ! 1 = CHR ''d'' then 3 else 4) \<le> dim a
            \<and> (if mode ! 2 = CHR ''d'' then 3 else 4) \<le> dim b \<longrightarrow>
          (\<exists>c rest res.
              sparse_matmul a b mode row_layout col_layout trans_a trans_b = (Alloc c # rest, res)
            \<and> (scalar_type a = Float \<and> scalar_type b = Float \<longrightarrow>
                 (\<exists>l. rest = [Launch l] \<and> l_layout l = col_layout
                    \<and> l_kernel l = Sparse_matmul_sdd_32x32x8_kernel))))"
proof (intro conjI impI)
  show sel: "select_layout mode row_layout col_layout trans_a trans_b = col_layout"
    using assms by (simp add: select_layout_def)
  {
    assume "3 \<le> length mode
            \<and> (if mode ! 1 = CHR ''d'' then 3 else 4) \<le> dim a
            \<and> (if mode ! 2 = CHR ''d'' then 3 else 4) \<le> dim b"
    then show "\<exists>c rest res.
              sparse_matmul a b mode row_layout col_layout trans_a trans_b = (Alloc c # rest, res)
            \<and> (scalar_type a = Float \<and> scalar_type b = Float \<longrightarrow>
                 (\<exists>l. rest = [Launch l] \<and> l_layout l = col_layout
                    \<and> l_kernel l = Sparse_matmul_sdd_32x32x8_kernel))"
      using sparse_matmul_allocates [of mode a b row_layout col_layout trans_a trans_b]
      unfolding sel by blast
  }
  assume refused: "length mode < 3
            \<or> dim a < (if mode ! 1 = CHR ''d'' then 3 else 4)
            \<or> dim b < (if mode ! 2 = CHR ''d'' then 3 else 4)"
  show "\<exists>e. sparse_matmul a b mode row_layout col_layout trans_a trans_b = ([], Inl e)
              \<and> e \<in> {Std_out_of_range, Dim_out_of_range, Invalid_slice}"
  proof (cases "length mode < 3")
    case True
    then show ?thesis by (simp add: sparse_matmul_short)
  next
    case False
    then have "3 \<le> length mode" by simp
    moreover from False refused
    have "dim a < (if mode ! 1 = CHR ''d'' then 3 else 4)
          \<or> dim b < (if mode ! 2 = CHR ''d'' then 3 else 4)" by blast
    ultimately show ?thesis
      using sparse_matmul_rank_refused [of mode a b row_layout col_layout trans_a trans_b]
      by auto
  qed
qed

theorem unrecognised_mode_witness:
  "''xy'' \<notin> {''sdd'', ''dsd'', ''dds''} \<and> length ''xy'' < 3
   \<and> (\<exists>e. sparse_matmul \<lparr>sizes = [1, 32, 8], scalar_type = Float\<rparr>
         \<lparr>sizes = [1, 8, 32], scalar_type = Float\<rparr> ''xy''
         \<lparr>block_list = [0, 0], table = [0, 1]\<rparr> \<lparr>block_list = [0, 0], table = [0, 1]\<rparr>
         False False = ([], Inl e))
   \<and> ''xyz'' \<notin> {''sdd'', ''dsd'', ''dds''} \<and> 3 \<le> length ''xyz''
   \<and> 4 \<le> dim \<lparr>sizes = [2, 1, 32, 32], scalar_type = Float\<rparr>
   \<and> (\<exists>c l res. sparse_matmul \<lparr>sizes = [2, 1, 32, 32], scalar_type = Float\<rparr>
         \<lparr>sizes = [2, 1, 32, 32], scalar_type = Float\<rparr> ''xyz''
         \<lparr>block_list = [0, 0], table = [0, 1]\<rparr> \<lparr>block_list = [1, 0], table = [0, 0, 1]\<rparr>
         False False = ([Alloc c, Launch l], res)
       \<and> l_layout l = \<lparr>block_list = [1, 0], table = [0, 0, 1]\<rparr>)"
proof -
  let ?t = "\<lparr>sizes = [2, 1, 32, 32], scalar_type = Float\<rparr>"
  have h: "''xy'' \<notin> {''sdd'', ''dsd'', ''dds''}" by simp
  have h': "''xyz'' \<notin> {''sdd'', ''dsd'', ''dds''}" by simp
  have d: "4 \<le> dim ?t" by (simp add: dim_def)
  have short: "\<exists>e. sparse_matmul \<lparr>sizes = [1, 32, 8], scalar_type = Float\<rparr>
         \<lparr>sizes = [1, 8, 32], scalar_type = Float\<rparr> ''xy''
         \<lparr>block_list = [0, 0], table = [0, 1]\<rparr> \<lparr>block_list = [0, 0], table = [0, 1]\<rparr>
         False False = ([], Inl e)"
    using unrecognised_mode [OF h, of "\<lparr>block_list = [0, 0], table = [0, 1]\<rparr>"
        "\<lparr>block_list = [0, 0], table = [0, 1]\<rparr>" False False
        "\<lparr>sizes = [1, 32, 8], scalar_type = Float\<rparr>"
        "\<lparr>sizes = [1, 8, 32], scalar_type = Float\<rparr>"]
    by auto
  have long: "\<exists>c l res. sparse_matmul ?t ?t ''xyz''
         \<lparr>block_list = [0, 0], table = [0, 1]\<rparr> \<lparr>block_list = [1, 0], table = [0, 0, 1]\<rparr>
         False False = ([Alloc c, Launch l], res)
       \<and> l_layout l = \<lparr>block_list = [1, 0], table = [0, 0, 1]\<rparr>"
    using unrecognised_mode [OF h', of "\<lparr>block_list = [0, 0], table = [0, 1]\<rparr>"
        "\<lparr>block_list = [1, 0], table = [0, 0, 1]\<rparr>" False False ?t ?t] d
    by auto
  show ?thesis
    using h h' d short long by simp
qed

text \<open>
  C4 as stated fails: the mode \<open>xyz\<close> is none of the three, and the call allocates the
  output, launches the kernel and returns a tensor.
\<close>

theorem unrecognised_mode_counterexample:
  "sparse_matmul \<lparr>sizes = [2, 1, 32, 32], scalar_type = Float\<rparr>
       \<lparr>sizes = [2, 1, 32, 32], scalar_type = Float\<rparr> ''xyz''
       \<lparr>block_list = [0, 0], table = [0, 1]\<rparr> \<lparr>block_list = [0, 0], table = [0, 1]\<rparr>
       False False
   = ([Alloc [2, 1, 32, 32],
       Launch \<lparr>l_kernel = Sparse_matmul_sdd_32x32x8_kernel,
               l_blocks = \<lparr>dim_x = 2, dim_y = 1, dim_z = 1\<rparr>, l_threads = 256,
               l_layout = \<lparr>block_list = [0, 0], table = [0, 1]\<rparr>,
               l_num_blocks = 1, l_size_m = 32, l_size_n = 32, l_size_k = 32,
               l_trans_a = False, l_trans_b = False\<rparr>],
      Inr \<lparr>sizes = [2, 1, 1, 32, 32], scalar_type = Float\<rparr>)"
  by (simp add: dispatch_defs)


section \<open>The claims about the kernel\<close>

lemmas kernel_defs =
  sparse_matmul_sdd_32x32x8_kernel_def layout_get_def prefetch_def slab_address_def loader_def
  advance_def read_def commit_def storage_get_def first_prefetch_a_def first_prefetch_b_def
  next_prefetch_a_def next_prefetch_b_def accumulate_def offset_c_def store_index_def
  Let_def upt_conv_Cons

text \<open>The kernel never reads \<open>blockIdx.z\<close>.\<close>

lemma kernel_ignores_z:
  "sparse_matmul_sdd_32x32x8_kernel matrix_a matrix_b cfg (idx\<lparr>dim_z := z\<rparr>) t
     = sparse_matmul_sdd_32x32x8_kernel matrix_a matrix_b cfg idx t"
  by (simp add: sparse_matmul_sdd_32x32x8_kernel_def Let_def cong: option.case_cong)

text \<open>A DSD call in which every read of the kernel stays inside the buffers: two
  batches, A in block form with both tiles of its 64 by 32, B of 32 by 64.\<close>

lemma dsd_dispatch:
  "sparse_matmul \<lparr>sizes = [2, 2, 32, 32], scalar_type = Float\<rparr>
       \<lparr>sizes = [2, 32, 64], scalar_type = Float\<rparr> ''dsd''
       \<lparr>block_list = [0, 0, 1, 0], table = [0, 1, 2]\<rparr>
       \<lparr>block_list = [0, 0, 1, 0], table = [0, 2]\<rparr> False False
   = ([Alloc [2, 64, 64],
       Launch \<lparr>l_kernel = Sparse_matmul_sdd_32x32x8_kernel,
               l_blocks = \<lparr>dim_x = 2, dim_y = 2, dim_z = 2\<rparr>, l_threads = 256,
               l_layout = \<lparr>block_list = [0, 0, 1, 0], table = [0, 1, 2]\<rparr>,
               l_num_blocks = 2, l_size_m = 64, l_size_n = 64, l_size_k = 32,
               l_trans_a = False, l_trans_b = False\<rparr>],
      Inr \<lparr>sizes = [2, 64, 64], scalar_type = Float\<rparr>)"
  by (simp add: dispatch_defs)

lemma dsd_kernel_value:
  "sparse_matmul_sdd_32x32x8_kernel \<lparr>extent = 4096, cell = (\<lambda>i. int i)\<rparr>
       \<lparr>extent = 4096, cell = (\<lambda>i. 1)\<rparr>
       \<lparr>l_kernel = Sparse_matmul_sdd_32x32x8_kernel,
        l_blocks = \<lparr>dim_x = 2, dim_y = 2, dim_z = 2\<rparr>, l_threads = 256,
        l_layout = \<lparr>block_list = [0, 0, 1, 0], table = [0, 1, 2]\<rparr>,
        l_num_blocks = 2, l_size_m = 64, l_size_n = 64, l_size_k = 32,
        l_trans_a = False, l_trans_b = False\<rparr>
       \<lparr>dim_x = 0, dim_y = 0, dim_z = z\<rparr> 0
   = Some [(0, 12400), (1, 12400), (2, 12400), (3, 12400)]"
  by (simp add: kernel_defs k_loop.simps)

lemma dsd_reference_value:
  "standard_product \<lparr>extent = 4096, cell = (\<lambda>i. int i)\<rparr>
       \<lparr>extent = 4096, cell = (\<lambda>i. 1)\<rparr> 32 64 0 0 0 0 = 496"
  by (simp add: standard_product_def upt_conv_Cons)


text \<open>
  C5 fails on the code. The call is SDD with A of 64 by 16, B of 16 by 32 and the one
  block at tile row 1, column 0, nothing transposed, so \<open>m = 32\<close>, \<open>n = 0\<close> and the loop
  prefetches once, at \<open>k = 0\<close>. The priming prefetch passes row origin, column origin and
  leading dimension in this order: \<open>(32, 0, 16)\<close> for A and \<open>(0, 0, 32)\<close> for B. The
  prefetch in the loop passes the leading dimension first: \<open>(16, 32, 8)\<close> for A where the
  claim has \<open>(32, 8, 16)\<close>, and \<open>(32, 8, 0)\<close> for B where the claim has \<open>(8, 0, 32)\<close>.
\<close>

theorem loop_prefetch_argument_order:
  "sparse_matmul \<lparr>sizes = [1, 64, 16], scalar_type = Float\<rparr>
       \<lparr>sizes = [1, 16, 32], scalar_type = Float\<rparr> ''sdd''
       \<lparr>block_list = [1, 0], table = [0, 0, 1]\<rparr> \<lparr>block_list = [1, 0], table = [0, 1]\<rparr>
       False False
   = ([Alloc [1, 1, 32, 32],
       Launch \<lparr>l_kernel = Sparse_matmul_sdd_32x32x8_kernel,
               l_blocks = \<lparr>dim_x = 1, dim_y = 1, dim_z = 1\<rparr>, l_threads = 256,
               l_layout = \<lparr>block_list = [1, 0], table = [0, 0, 1]\<rparr>,
               l_num_blocks = 1, l_size_m = 64, l_size_n = 32, l_size_k = 16,
               l_trans_a = False, l_trans_b = False\<rparr>],
      Inr \<lparr>sizes = [1, 1, 32, 32], scalar_type = Float\<rparr>)
   \<and> layout_get \<lparr>block_list = [1, 0], table = [0, 0, 1]\<rparr> 0
       = Some \<lparr>block_row = 1, block_col = 0, block_idx = 0\<rparr>
   \<and> first_prefetch_a \<lparr>l_kernel = Sparse_matmul_sdd_32x32x8_kernel,
               l_blocks = \<lparr>dim_x = 1, dim_y = 1, dim_z = 1\<rparr>, l_threads = 256,
               l_layout = \<lparr>block_list = [1, 0], table = [0, 0, 1]\<rparr>,
               l_num_blocks = 1, l_size_m = 64, l_size_n = 32, l_size_k = 16,
               l_trans_a = False, l_trans_b = False\<rparr> (1 * 32) = (32, 0, 16)
   \<and> next_prefetch_a \<lparr>l_kernel = Sparse_matmul_sdd_32x32x8_kernel,
               l_blocks = \<lparr>dim_x = 1, dim_y = 1, dim_z = 1\<rparr>, l_threads = 256,
               l_layout = \<lparr>block_list = [1, 0], table = [0, 0, 1]\<rparr>,
               l_num_blocks = 1, l_size_m = 64, l_size_n = 32, l_size_k = 16,
               l_trans_a = False, l_trans_b = False\<rparr> (1 * 32) 0 = (16, 32, 8)
   \<and> first_prefetch_b \<lparr>l_kernel = Sparse_matmul_sdd_32x32x8_kernel,
               l_blocks = \<lparr>dim_x = 1, dim_y = 1, dim_z = 1\<rparr>, l_threads = 256,
               l_layout = \<lparr>block_list = [1, 0], table = [0, 0, 1]\<rparr>,
               l_num_blocks = 1, l_size_m = 64, l_size_n = 32, l_size_k = 16,
               l_trans_a = False, l_trans_b = False\<rparr> (0 * 32) = (0, 0, 32)
   \<and> next_prefetch_b \<lparr>l_kernel = Sparse_matmul_sdd_32x32x8_kernel,
               l_blocks = \<lparr>dim_x = 1, dim_y = 1, dim_z = 1\<rparr>, l_threads = 256,
               l_layout = \<lparr>block_list = [1, 0], table = [0, 0, 1]\<rparr>,
               l_num_blocks = 1, l_size_m = 64, l_size_n = 32, l_size_k = 16,
               l_trans_a = False, l_trans_b = False\<rparr> (0 * 32) 0 = (32, 8, 0)"
  by (simp add: dispatch_defs layout_get_def first_prefetch_a_def first_prefetch_b_def
      next_prefetch_a_def next_prefetch_b_def)

text \<open>With a reduction of one step the loop never prefetches, and the block is the
  standard product: here thread 33 (lane 1, warp 1) of an SDD call with A of 32 by 8 and
  B of 8 by 32, both holding their own flat index.\<close>

lemma sdd_block_of_one_step:
  "sparse_matmul_sdd_32x32x8_kernel \<lparr>extent = 256, cell = (\<lambda>i. int i)\<rparr>
       \<lparr>extent = 256, cell = (\<lambda>i. int i)\<rparr>
       \<lparr>l_kernel = Sparse_matmul_sdd_32x32x8_kernel,
        l_blocks = \<lparr>dim_x = 1, dim_y = 1, dim_z = 1\<rparr>, l_threads = 256,
        l_layout = \<lparr>block_list = [0, 0], table = [0, 1]\<rparr>,
        l_num_blocks = 1, l_size_m = 32, l_size_n = 32, l_size_k = 8,
        l_trans_a = False, l_trans_b = False\<rparr>
       \<lparr>dim_x = 0, dim_y = 0, dim_z = 0\<rparr> 33
   = Some (map (\<lambda>i. (1 * 32 + (1 * 4 + i),
                      standard_product \<lparr>extent = 256, cell = (\<lambda>i. int i)\<rparr>
                        \<lparr>extent = 256, cell = (\<lambda>i. int i)\<rparr> 8 32 0 0 1 (1 * 4 + i)))
             [0..<4])"
  by (simp add: kernel_defs k_loop.simps standard_product_def)

text \<open>
  C2 fails on the code. The call is SDD with A of 32 by 16 holding its own flat index,
  B of 16 by 32 holding ones, and the one block at tile row 0, column 0, nothing
  transposed: the reduction extent is 16, a positive multiple of 8, and every read stays
  inside the buffers. Thread 0 of the work-group stores 1080 into the first four elements
  of the block, where the standard product has 120: the second slab is fetched with the
  arguments of the loop's prefetch, from rows 16 and on of a matrix of leading
  dimension 8.
\<close>

theorem sdd_block_of_two_steps:
  "sparse_matmul \<lparr>sizes = [1, 32, 16], scalar_type = Float\<rparr>
       \<lparr>sizes = [1, 16, 32], scalar_type = Float\<rparr> ''sdd''
       \<lparr>block_list = [0, 0], table = [0, 1]\<rparr> \<lparr>block_list = [0, 0], table = [0, 1]\<rparr>
       False False
   = ([Alloc [1, 1, 32, 32],
       Launch \<lparr>l_kernel = Sparse_matmul_sdd_32x32x8_kernel,
               l_blocks = \<lparr>dim_x = 1, dim_y = 1, dim_z = 1\<rparr>, l_threads = 256,
               l_layout = \<lparr>block_list = [0, 0], table = [0, 1]\<rparr>,
               l_num_blocks = 1, l_size_m = 32, l_size_n = 32, l_size_k = 16,
               l_trans_a = False, l_trans_b = False\<rparr>],
      Inr \<lparr>sizes = [1, 1, 32, 32], scalar_type = Float\<rparr>)
   \<and> sparse_matmul_sdd_32x32x8_kernel \<lparr>extent = 512, cell = (\<lambda>i. int i)\<rparr>
       \<lparr>extent = 512, cell = (\<lambda>i. 1)\<rparr>
       \<lparr>l_kernel = Sparse_matmul_sdd_32x32x8_kernel,
        l_blocks = \<lparr>dim_x = 1, dim_y = 1, dim_z = 1\<rparr>, l_threads = 256,
        l_layout = \<lparr>block_list = [0, 0], table = [0, 1]\<rparr>,
        l_num_blocks = 1, l_size_m = 32, l_size_n = 32, l_size_k = 16,
        l_trans_a = False, l_trans_b = False\<rparr>
       \<lparr>dim_x = 0, dim_y = 0, dim_z = 0\<rparr> 0
     = Some [(0, 1080), (1, 1080), (2, 1080), (3, 1080)]
   \<and> standard_product \<lparr>extent = 512, cell = (\<lambda>i. int i)\<rparr>
       \<lparr>extent = 512, cell = (\<lambda>i. 1)\<rparr> 16 32 0 0 0 0 = 120"
proof (intro conjI)
  show "standard_product \<lparr>extent = 512, cell = (\<lambda>i. int i)\<rparr>
       \<lparr>extent = 512, cell = (\<lambda>i. 1)\<rparr> 16 32 0 0 0 0 = 120"
    by (simp add: standard_product_def upt_conv_Cons)
qed (simp_all add: dispatch_defs kernel_defs k_loop.simps)

text \<open>
  C1 fails on the code. The call is DSD with two batches, A in block form with both
  tiles of its 64 by 32 present (so the blocks, one below the other, are the dense
  matrix row by row), holding its own flat index, and B of 32 by 64 holding ones. The
  kernel launched is the SDD kernel, as for every mode, and every read stays inside the
  buffers. Thread 0 of work-group (0, 0, 0) stores 12400 into the first element of the
  output, where the product of the dense matrices has 496. Apart from the value, the
  stores go to the places of an SDD block: thread 1 of that work-group, which works on
  row 1, stores from flat index 32 on, and in the output of 64 columns that is row 0,
  column 32.
\<close>

theorem dsd_runs_the_sdd_kernel:
  "sparse_matmul \<lparr>sizes = [2, 2, 32, 32], scalar_type = Float\<rparr>
       \<lparr>sizes = [2, 32, 64], scalar_type = Float\<rparr> ''dsd''
       \<lparr>block_list = [0, 0, 1, 0], table = [0, 1, 2]\<rparr>
       \<lparr>block_list = [0, 0, 1, 0], table = [0, 2]\<rparr> False False
   = ([Alloc [2, 64, 64],
       Launch \<lparr>l_kernel = Sparse_matmul_sdd_32x32x8_kernel,
               l_blocks = \<lparr>dim_x = 2, dim_y = 2, dim_z = 2\<rparr>, l_threads = 256,
               l_layout = \<lparr>block_list = [0, 0, 1, 0], table = [0, 1, 2]\<rparr>,
               l_num_blocks = 2, l_size_m = 64, l_size_n = 64, l_size_k = 32,
               l_trans_a = False, l_trans_b = False\<rparr>],
      Inr \<lparr>sizes = [2, 64, 64], scalar_type = Float\<rparr>)
   \<and> select_kernel ''dsd'' = select_kernel ''sdd''
   \<and> sparse_matmul_sdd_32x32x8_kernel \<lparr>extent = 4096, cell = (\<lambda>i. int i)\<rparr>
       \<lparr>extent = 4096, cell = (\<lambda>i. 1)\<rparr>
       \<lparr>l_kernel = Sparse_matmul_sdd_32x32x8_kernel,
        l_blocks = \<lparr>dim_x = 2, dim_y = 2, dim_z = 2\<rparr>, l_threads = 256,
        l_layout = \<lparr>block_list = [0, 0, 1, 0], table = [0, 1, 2]\<rparr>,
        l_num_blocks = 2, l_size_m = 64, l_size_n = 64, l_size_k = 32,
        l_trans_a = False, l_trans_b = False\<rparr>
       \<lparr>dim_x = 0, dim_y = 0, dim_z = 0\<rparr> 0
     = Some [(0, 12400), (1, 12400), (2, 12400), (3, 12400)]
   \<and> standard_product \<lparr>extent = 4096, cell = (\<lambda>i. int i)\<rparr>
       \<lparr>extent = 4096, cell = (\<lambda>i. 1)\<rparr> 32 64 0 0 0 0 = 496
   \<and> store_index (offset_c 2 0 \<lparr>block_row = 0, block_col = 0, block_idx = 0\<rparr>)
       (1 mod 32) (1 div 32) 0 = 32"
  using dsd_dispatch dsd_kernel_value [of 0] dsd_reference_value
  by (simp add: select_kernel_def store_index_def offset_c_def)

subsection \<open>Where the grid stores\<close>

lemma unat_sum_le: "unat (a + b :: uint) \<le> unat a + unat b"
  by (simp add: unat_word_ariths) 

lemma unat_times_le: "unat (a * b :: uint) \<le> unat a * unat b"
  by (simp add: unat_word_ariths)

lemma word_below_2: "(x :: uint) < 2 \<Longrightarrow> x = 0 \<or> x = 1"
proof -
  assume "x < 2"
  then have "unat x < 2" by (simp add: word_less_nat_alt)
  then have "unat x = 0 \<or> unat x = 1" by arith
  then show ?thesis by (auto simp: word_unat_eq_iff)
qed

lemma lane_warp_bound:
  assumes "(t :: uint) < 256"
  shows "unat (t mod 32) < 32" and "unat (t div 32) < 8"
  using assms by (simp_all add: unat_mod_distrib unat_div_distrib word_less_nat_alt)


text \<open>In the DSD call above, whatever the work-group and the thread, a store falls into
  the first 4096 of the 8192 elements of the output.\<close>

lemma dsd_stores_in_first_half:
  fixes x y t :: uint
  assumes "x < 2" and "y < 2" and "t < 256" and "i < 4"
  shows "store_index (offset_c 2 y \<lparr>block_row = r, block_col = c, block_idx = x\<rparr>)
           (t mod 32) (t div 32) i < 4096"
proof -
  have off: "unat ((y * 2 + x) * 32 * 32) \<le> 3072"
    using word_below_2 [OF assms(1)] word_below_2 [OF assms(2)] by auto
  have lane: "unat (t mod 32 * 32) \<le> 31 * 32"
    using unat_times_le [of "t mod 32" 32] lane_warp_bound(1) [OF assms(3)] by simp
  have "unat (word_of_nat i :: uint) \<le> i"
    by (simp add: unat_of_nat)
  then have warp: "unat (t div 32 * 4 + word_of_nat i) \<le> 7 * 4 + 3"
    using unat_sum_le [of "t div 32 * 4" "word_of_nat i"] unat_times_le [of "t div 32" 4]
      lane_warp_bound(2) [OF assms(3)] assms(4) by simp
  have "unat ((y * 2 + x) * 32 * 32 + t mod 32 * 32 + (t div 32 * 4 + word_of_nat i))
          \<le> unat ((y * 2 + x) * 32 * 32) + unat (t mod 32 * 32)
              + unat (t div 32 * 4 + word_of_nat i)"
    using unat_sum_le [of "(y * 2 + x) * 32 * 32 + t mod 32 * 32" "t div 32 * 4 + word_of_nat i"]
      unat_sum_le [of "(y * 2 + x) * 32 * 32" "t mod 32 * 32"] by linarith
  with off lane warp show ?thesis
    by (simp add: store_index_def offset_c_def)
qed


text \<open>The store index without wrap-around.\<close>

lemma grid_cell_bound:
  fixes y x nb nbatch :: nat
  assumes "y < nbatch" and "x < nb"
  shows "(y * nb + x) * 1024 + 1023 < nbatch * nb * 1024"
proof -
  have "y * nb + x < (y + 1) * nb" using assms(2) by simp
  also have "\<dots> \<le> nbatch * nb" using assms(1) by (intro mult_le_mono1) simp
  finally have "y * nb + x + 1 \<le> nbatch * nb" by simp
  then have "(y * nb + x + 1) * 1024 \<le> nbatch * nb * 1024" by simp
  then show ?thesis by simp
qed

lemma store_index_exact:
  fixes y x t nb nbatch :: uint
  assumes fit: "unat nbatch * unat nb * 1024 \<le> 2 ^ 32"
    and "y < nbatch" and "x < nb" and "t < 256" and "i < 4"
  shows "store_index (offset_c nb y \<lparr>block_row = r, block_col = c, block_idx = x\<rparr>)
           (t mod 32) (t div 32) i
         = (unat y * unat nb + unat x) * 1024 + unat t mod 32 * 32 + unat t div 32 * 4 + i"
proof -
  let ?n = "(unat y * unat nb + unat x) * 1024 + unat t mod 32 * 32 + unat t div 32 * 4 + i"
  have tl: "unat t mod 32 * 32 + unat t div 32 * 4 + i \<le> 1023"
  proof -
    have "unat t < 256" using assms(4) by (simp add: word_less_nat_alt)
    then have "unat t div 32 \<le> 7" by arith
    moreover have "unat t mod 32 \<le> 31" by arith
    ultimately show ?thesis using assms(5) by linarith
  qed
  have "?n < unat nbatch * unat nb * 1024"
    using grid_cell_bound [of "unat y" "unat nbatch" "unat x" "unat nb"] assms(2,3) tl
    by (simp add: word_less_nat_alt)
  with fit have small: "?n < 2 ^ 32" by linarith
  have "(word_of_nat (unat (t mod 32)) :: uint) = t mod 32"
    and "(word_of_nat (unat (t div 32)) :: uint) = t div 32"
    by simp_all
  then have "(word_of_nat (unat t mod 32) :: uint) = t mod 32"
    and "(word_of_nat (unat t div 32) :: uint) = t div 32"
    by (simp_all only: unat_mod_distrib unat_div_distrib) simp_all
  then have "(y * nb + x) * 32 * 32 + t mod 32 * 32 + (t div 32 * 4 + word_of_nat i)
          = (word_of_nat ?n :: uint)"
    by simp
  then show ?thesis
    using small unfolding store_index_def offset_c_def
    by (simp add: unat_of_nat del: of_nat_add of_nat_mult)
qed


lemma tile_row: "w \<le> 7 \<Longrightarrow> i < 4 \<Longrightarrow> (l * 32 + w * 4 + i) div 32 = (l::nat)"
  by simp

lemma tile_column: "w \<le> 7 \<Longrightarrow> i < 4 \<Longrightarrow> (l * 32 + w * 4 + i) mod 32 div 4 = (w::nat)"
proof -
  assume "w \<le> 7" and "i < 4"
  then have "w * 4 + i < 32" by linarith
  have "(l * 32 + (w * 4 + i)) mod 32 = (w * 4 + i) mod 32"
    by (rule mod_mult_self3)
  then have "(l * 32 + w * 4 + i) mod 32 = w * 4 + i"
    using \<open>w * 4 + i < 32\<close> by (simp add: add.assoc)
  then show ?thesis using \<open>i < 4\<close> by simp
qed

lemma tile_register: "i < 4 \<Longrightarrow> (l * 32 + w * 4 + i) mod 4 = (i::nat)"
proof -
  assume "i < 4"
  have "l * 32 + w * 4 + i = (l * 8 + w) * 4 + i" by simp
  then have "(l * 32 + w * 4 + i) mod 4 = i mod 4"
    by (simp only: mod_mult_self3)
  then show ?thesis using \<open>i < 4\<close> by simp
qed

lemma cell_decode:
  fixes y x t i nb :: nat
  assumes "x < nb" and "t < 256" and "i < 4"
    and "j = (y * nb + x) * 1024 + t mod 32 * 32 + t div 32 * 4 + i"
  shows "y = j div 1024 div nb" and "x = j div 1024 mod nb"
    and "t = j mod 1024 mod 32 div 4 * 32 + j mod 1024 div 32" and "i = j mod 4"
proof -
  define l w where "l = t mod 32" and "w = t div 32"
  have w: "w \<le> 7" using assms(2) unfolding w_def by arith
  have l: "l \<le> 31" unfolding l_def by arith
  have t: "t = w * 32 + l" unfolding l_def w_def by simp
  define inner where "inner = l * 32 + w * 4 + i"
  have inner: "inner < 1024"
    using assms(3) w l unfolding inner_def by linarith
  have j: "j = (y * nb + x) * 1024 + inner"
    unfolding inner_def assms(4) l_def w_def by simp
  have "j div 1024 = y * nb + x + inner div 1024"
    unfolding j by (rule div_mult_self3) simp
  then have q: "j div 1024 = y * nb + x"
    using inner by simp
  show "y = j div 1024 div nb" "x = j div 1024 mod nb"
    using assms(1) by (simp_all add: q)
  have "j mod 1024 = inner mod 1024"
    unfolding j by (rule mod_mult_self3)
  then have r: "j mod 1024 = inner"
    using inner by simp
  have "inner div 32 = l" "inner mod 32 div 4 = w" "inner mod 4 = i"
    using assms(3) w unfolding inner_def
    by (simp_all only: tile_row tile_column tile_register)
  then show "t = j mod 1024 mod 32 div 4 * 32 + j mod 1024 div 32"
    unfolding r t by simp
  have "j mod 4 = j mod 1024 mod 4"
    by (simp add: mod_mod_cancel)
  then show "i = j mod 4"
    unfolding r using \<open>inner mod 4 = i\<close> by simp
qed


text \<open>
  The SDD grid: one work-group for each block \<open>x\<close> and batch \<open>y\<close>, 256 threads each, four
  stores a thread. While the output has at most \<open>2 ^ 32\<close> elements, the stores of the grid
  fall inside the output, no two of them on the same element, and every element gets one.
\<close>

lemma sdd_stores_inside:
  fixes y x t nb nbatch :: uint
  assumes "unat nbatch * unat nb * 1024 \<le> 2 ^ 32"
    and "y < nbatch" and "x < nb" and "t < 256" and "i < 4"
  shows "store_index (offset_c nb y \<lparr>block_row = r, block_col = c, block_idx = x\<rparr>)
           (t mod 32) (t div 32) i < unat nbatch * unat nb * 1024"
proof -
  have "unat t < 256" using assms(4) by (simp add: word_less_nat_alt)
  then have "unat t div 32 \<le> 7" by arith
  moreover have "unat t mod 32 \<le> 31" by arith
  ultimately have "unat t mod 32 * 32 + unat t div 32 * 4 + i \<le> 1023"
    using assms(5) by linarith
  then show ?thesis
    using grid_cell_bound [of "unat y" "unat nbatch" "unat x" "unat nb"] assms(2,3)
    unfolding store_index_exact [OF assms]
    by (simp add: word_less_nat_alt)
qed

lemma sdd_stores_distinct:
  fixes y x t y' x' t' nb nbatch :: uint
  assumes fit: "unat nbatch * unat nb * 1024 \<le> 2 ^ 32"
    and v: "y < nbatch" "x < nb" "t < 256" "i < 4"
    and v': "y' < nbatch" "x' < nb" "t' < 256" "i' < 4"
    and same: "store_index (offset_c nb y \<lparr>block_row = r, block_col = c, block_idx = x\<rparr>)
                 (t mod 32) (t div 32) i
               = store_index (offset_c nb y' \<lparr>block_row = r', block_col = c', block_idx = x'\<rparr>)
                 (t' mod 32) (t' div 32) i'"
  shows "y = y' \<and> x = x' \<and> t = t' \<and> i = i'"
proof -
  define j where "j = (unat y * unat nb + unat x) * 1024 + unat t mod 32 * 32
                        + unat t div 32 * 4 + i"
  have j': "j = (unat y' * unat nb + unat x') * 1024 + unat t' mod 32 * 32
                        + unat t' div 32 * 4 + i'"
    using same unfolding store_index_exact [OF fit v] store_index_exact [OF fit v'] j_def .
  have n: "unat x < unat nb" "unat t < 256" "unat x' < unat nb" "unat t' < 256"
    using v v' by (simp_all add: word_less_nat_alt)
  have "unat y = unat y'"
    using cell_decode(1) [OF n(1,2) v(4) j_def] cell_decode(1) [OF n(3,4) v'(4) j'] by simp
  moreover have "unat x = unat x'"
    using cell_decode(2) [OF n(1,2) v(4) j_def] cell_decode(2) [OF n(3,4) v'(4) j'] by simp
  moreover have "unat t = unat t'"
    using cell_decode(3) [OF n(1,2) v(4) j_def] cell_decode(3) [OF n(3,4) v'(4) j'] by simp
  moreover have "i = i'"
    using cell_decode(4) [OF n(1,2) v(4) j_def] cell_decode(4) [OF n(3,4) v'(4) j'] by simp
  ultimately show ?thesis
    by (simp add: word_unat_eq_iff)
qed

lemma sdd_stores_cover:
  fixes nb nbatch :: uint
  assumes fit: "unat nbatch * unat nb * 1024 \<le> 2 ^ 32"
    and j: "j < unat nbatch * unat nb * 1024"
  shows "\<exists>y x t i. y < nbatch \<and> x < nb \<and> t < 256 \<and> i < 4
           \<and> store_index (offset_c nb y \<lparr>block_row = r, block_col = c, block_idx = x\<rparr>)
                (t mod 32) (t div 32) i = j"
proof -
  define q where "q = j div 1024"
  define p where "p = j mod 1024"
  have nb: "0 < unat nb" using j by (cases "unat nb = 0") simp_all
  have q: "q < unat nbatch * unat nb"
    using j unfolding q_def by (simp add: less_mult_imp_div_less)
  have yn: "q div unat nb < unat nbatch"
    using q nb by (simp add: less_mult_imp_div_less)
  have xn: "q mod unat nb < unat nb"
    using nb by simp
  have p: "p < 1024" unfolding p_def by simp
  define tn where "tn = p mod 32 div 4 * 32 + p div 32"
  have "p mod 32 < 32" by simp
  then have col: "p mod 32 div 4 \<le> 7" by linarith
  have row: "p div 32 < 32" using p by linarith
  have tn: "tn < 256" "tn mod 32 = p div 32" "tn div 32 = p mod 32 div 4"
    using col row unfolding tn_def by simp_all
  define y x t :: uint where "y = word_of_nat (q div unat nb)"
    and "x = word_of_nat (q mod unat nb)" and "t = word_of_nat tn"
  have big: "unat nbatch < 2 ^ 32" "unat nb < 2 ^ 32"
    using unsigned_less [of nbatch] unsigned_less [of nb] by simp_all
  have u: "unat y = q div unat nb" "unat x = q mod unat nb" "unat t = tn"
    using yn xn tn(1) big unfolding y_def x_def t_def
    by (simp_all add: unat_of_nat)
  have r: "y < nbatch" "x < nb" "t < 256" "j mod 4 < 4"
    using yn xn tn(1) by (simp_all add: word_less_nat_alt u)
  have "p = p div 32 * 32 + p mod 32 div 4 * 4 + j mod 4"
  proof -
    have "j mod 4 = p mod 32 mod 4"
      unfolding p_def by (simp add: mod_mod_cancel)
    then show ?thesis by simp
  qed
  then have "j = (unat y * unat nb + unat x) * 1024 + unat t mod 32 * 32
                   + unat t div 32 * 4 + j mod 4"
    unfolding u tn(2,3) using div_mult_mod_eq [of j 1024]
    by (simp add: q_def [symmetric] p_def [symmetric])
  then have "store_index (offset_c nb y \<lparr>block_row = r, block_col = c, block_idx = x\<rparr>)
                (t mod 32) (t div 32) (j mod 4) = j"
    unfolding store_index_exact [OF fit r] by simp
  with r show ?thesis by blast
qed

text \<open>
  C3 fails on the code. In the same DSD call the output has 2 times 64 times 64
  elements and the grid is 2 by 2 by 2, but the kernel takes its block from \<open>blockIdx.x\<close>
  and its batch from \<open>blockIdx.y\<close> and never reads \<open>blockIdx.z\<close>: thread 0 of work-group
  (0, 0, 0) and thread 0 of work-group (0, 0, 1) both store into elements 0 to 3, and by
  \<open>dsd_stores_in_first_half\<close> the second half of the output is never stored. On the SDD
  grid the stores do partition the output (\<open>sdd_stores_inside\<close>,
  \<open>sdd_stores_distinct\<close>, \<open>sdd_stores_cover\<close>).
\<close>

theorem dsd_grid_stores_twice:
  "sparse_matmul \<lparr>sizes = [2, 2, 32, 32], scalar_type = Float\<rparr>
       \<lparr>sizes = [2, 32, 64], scalar_type = Float\<rparr> ''dsd''
       \<lparr>block_list = [0, 0, 1, 0], table = [0, 1, 2]\<rparr>
       \<lparr>block_list = [0, 0, 1, 0], table = [0, 2]\<rparr> False False
   = ([Alloc [2, 64, 64],
       Launch \<lparr>l_kernel = Sparse_matmul_sdd_32x32x8_kernel,
               l_blocks = \<lparr>dim_x = 2, dim_y = 2, dim_z = 2\<rparr>, l_threads = 256,
               l_layout = \<lparr>block_list = [0, 0, 1, 0], table = [0, 1, 2]\<rparr>,
               l_num_blocks = 2, l_size_m = 64, l_size_n = 64, l_size_k = 32,
               l_trans_a = False, l_trans_b = False\<rparr>],
      Inr \<lparr>sizes = [2, 64, 64], scalar_type = Float\<rparr>)
   \<and> map fst (the (sparse_matmul_sdd_32x32x8_kernel \<lparr>extent = 4096, cell = (\<lambda>i. int i)\<rparr>
       \<lparr>extent = 4096, cell = (\<lambda>i. 1)\<rparr>
       \<lparr>l_kernel = Sparse_matmul_sdd_32x32x8_kernel,
        l_blocks = \<lparr>dim_x = 2, dim_y = 2, dim_z = 2\<rparr>, l_threads = 256,
        l_layout = \<lparr>block_list = [0, 0, 1, 0], table = [0, 1, 2]\<rparr>,
        l_num_blocks = 2, l_size_m = 64, l_size_n = 64, l_size_k = 32,
        l_trans_a = False, l_trans_b = False\<rparr>
       \<lparr>dim_x = 0, dim_y = 0, dim_z = 0\<rparr> 0)) = [0, 1, 2, 3]
   \<and> map fst (the (sparse_matmul_sdd_32x32x8_kernel \<lparr>extent = 4096, cell = (\<lambda>i. int i)\<rparr>
       \<lparr>extent = 4096, cell = (\<lambda>i. 1)\<rparr>
       \<lparr>l_kernel = Sparse_matmul_sdd_32x32x8_kernel,
        l_blocks = \<lparr>dim_x = 2, dim_y = 2, dim_z = 2\<rparr>, l_threads = 256,
        l_layout = \<lparr>block_list = [0, 0, 1, 0], table = [0, 1, 2]\<rparr>,
        l_num_blocks = 2, l_size_m = 64, l_size_n = 64, l_size_k = 32,
        l_trans_a = False, l_trans_b = False\<rparr>
       \<lparr>dim_x = 0, dim_y = 0, dim_z = 1\<rparr> 0)) = [0, 1, 2, 3]"
  using dsd_dispatch dsd_kernel_value [of 0] dsd_kernel_value [of 1]
  by simp


end
